theory Spec2Isabelle
  imports Complex_Main
begin

section \<open>Python built-ins used by the source\<close>

text \<open>
  Strings are \<open>char list\<close>s (bytes; a character outside ASCII is its UTF-8 bytes).
  \<open>str.strip()\<close> removes leading and trailing whitespace; the characters below are the
  ASCII ones for which \<open>str.isspace\<close> holds (tab, line feed, vertical tab, form feed,
  carriage return, the four separators 0x1C..0x1F and the blank).
\<close>

definition py_isspace :: "char \<Rightarrow> bool" where
  "py_isspace c = (of_char c \<in> {9::nat, 10, 11, 12, 13, 28, 29, 30, 31, 32})"

definition py_strip :: "string \<Rightarrow> string" where
  "py_strip s = rev (dropWhile py_isspace (rev (dropWhile py_isspace s)))"

text \<open>\<open>s.split(sep)\<close> for a one-character separator: every occurrence cuts, empty pieces stay.\<close>

fun py_split :: "char \<Rightarrow> string \<Rightarrow> string list" where
  "py_split sep [] = [[]]"
| "py_split sep (c # cs) =
     (if c = sep then [] # py_split sep cs
      else (case py_split sep cs of [] \<Rightarrow> [[c]] | p # ps \<Rightarrow> (c # p) # ps))"

text \<open>\<open>sep.join(parts)\<close>.\<close>

fun py_join :: "string \<Rightarrow> string list \<Rightarrow> string" where
  "py_join sep [] = []"
| "py_join sep [p] = p"
| "py_join sep (p # q # ps) = p @ sep @ py_join sep (q # ps)"

text \<open>\<open>str(n)\<close> for an integer: decimal digits, a minus sign for negative numbers.\<close>

definition digit_char :: "nat \<Rightarrow> char" where
  "digit_char d = ''0123456789'' ! d"

function str_digits :: "int \<Rightarrow> string" where
  "str_digits i =
     (if i < 10 then [digit_char (nat i)]
      else str_digits (i div 10) @ [digit_char (nat (i mod 10))])"
  by pat_completeness auto
termination
  by (relation "measure nat") auto

declare str_digits.simps [simp del]

definition str_int :: "int \<Rightarrow> string" where
  "str_int i = (if i < 0 then CHR ''-'' # str_digits (- i) else str_digits i)"

text \<open>
  \<open>int(s)\<close> on a string, in base ten: surrounding whitespace is dropped, one sign is
  allowed, then ASCII digits, with single underscores allowed between digits. \<open>None\<close>
  stands for the \<open>ValueError\<close> that \<open>int\<close> raises on anything else.
\<close>

definition is_digit :: "char \<Rightarrow> bool" where
  "is_digit c = (48 \<le> (of_char c :: nat) \<and> (of_char c :: nat) \<le> 57)"

definition digit_val :: "char \<Rightarrow> nat" where
  "digit_val c = of_char c - 48"

fun parse_digits :: "string \<Rightarrow> nat \<Rightarrow> nat option" where
  "parse_digits [] acc = Some acc"
| "parse_digits [c] acc = (if is_digit c then Some (acc * 10 + digit_val c) else None)"
| "parse_digits (c # d # cs) acc =
     (if is_digit c then parse_digits (d # cs) (acc * 10 + digit_val c)
      else if c = CHR ''_'' \<and> is_digit d then parse_digits cs (acc * 10 + digit_val d)
      else None)"

definition py_int :: "string \<Rightarrow> int option" where
  "py_int s =
     (case py_strip s of
        [] \<Rightarrow> None
      | c # cs \<Rightarrow>
          (let neg = (c = CHR ''-'');
               ds = (if c = CHR ''-'' \<or> c = CHR ''+'' then cs else c # cs)
           in case ds of
                [] \<Rightarrow> None
              | d # rest \<Rightarrow>
                  if is_digit d
                  then map_option (\<lambda>n. if neg then - int n else int n)
                         (parse_digits rest (digit_val d))
                  else None))"

text \<open>
  Times and latencies are Python floats in the source. They are modelled by rationals,
  with exact arithmetic: the binary rounding error of a float operation is outside the
  model. \<open>round(x, 1)\<close> rounds to the nearest multiple of one tenth, a tie going to the
  even multiple.
\<close>

definition py_round1 :: "rat \<Rightarrow> rat" where
  "py_round1 x =
     (let y = x * 10; f = \<lfloor>y\<rfloor>; d = y - of_int f
      in of_int (if d < 1 / 2 then f else if 1 / 2 < d then f + 1
                 else if even f then f else f + 1) / 10)"


section \<open>The host: external commands, clock and files\<close>

text \<open>
  Everything the program asks of the operating system is an event. The host answers a
  request as a function of the events so far, so an answer may change after any command
  (a port that listens after \<open>socat\<close> was started, a process that is gone after
  \<open>pkill\<close>). Nothing is assumed about these answers. The program appends each request to
  \<open>trace\<close>.
\<close>

datatype exn = TimeoutExpired string | PyException string


datatype completed = Completed (returncode: int) (stdout: string) (stderr: string)

datatype command = Argv "string list" | ShellCmd string

datatype event =
    Run command "rat option"
  | TimeRead
  | Sleep rat
  | WriteFile string string
  | Callback string string string "rat option"
  | SaveDnsConfig string string
  | SetForwardMode string

record world =
  trace :: "event list"
  exec :: "event list \<Rightarrow> command \<Rightarrow> exn + completed"
  clock :: "event list \<Rightarrow> rat"
  fs :: "event list \<Rightarrow> event \<Rightarrow> exn option"
  forward_mode :: string

definition emit :: "event \<Rightarrow> world \<Rightarrow> world" where
  "emit e w = w\<lparr>trace := trace w @ [e]\<rparr>"

text \<open>\<open>subprocess.run\<close>: the process completes, or the call raises.\<close>

definition subprocess_run :: "command \<Rightarrow> rat option \<Rightarrow> world \<Rightarrow> (exn + completed) \<times> world" where
  "subprocess_run c tmo w = (exec w (trace w) c, emit (Run c tmo) w)"

text \<open>\<open>time.time()\<close> and \<open>time.sleep(s)\<close>.\<close>

definition time_time :: "world \<Rightarrow> rat \<times> world" where
  "time_time w = (clock w (trace w), emit TimeRead w)"

definition time_sleep :: "rat \<Rightarrow> world \<Rightarrow> world" where
  "time_sleep s w = emit (Sleep s) w"


section \<open>dns\_manager.py\<close>

definition TEST_DOMAIN_1 :: string where
  "TEST_DOMAIN_1 = ''chatgpt.com''"


definition TIMEOUT :: rat where
  "TIMEOUT = 28 / 10"

definition REPEAT :: nat where
  "REPEAT = 2"

text \<open>The catalog, in the order of the source; a name outside ASCII is its UTF-8 bytes.\<close>

definition RAW_DNS_LIST :: "(string \<times> string) list" where
  "RAW_DNS_LIST = [
    ([CHR 0xD8, CHR 0xB1, CHR 0xD8, CHR 0xA7, CHR 0xD8, CHR 0xAF, CHR 0xD8, CHR 0xA7, CHR 0xD8, CHR 0xB1], ''10.202.10.10''),
    ([CHR 0xD8, CHR 0xB1, CHR 0xD8, CHR 0xA7, CHR 0xD8, CHR 0xAF, CHR 0xD8, CHR 0xA7, CHR 0xD8, CHR 0xB1], ''10.202.10.11''),
    ([CHR 0xD8, CHR 0xB3, CHR 0xD8, CHR 0xB1, CHR 0xD9, CHR 0x88, CHR 0xDB, CHR 0x8C, CHR 0xD8, CHR 0xB3, CHR 0x20, CHR 0x34, CHR 0x30, CHR 0x33], ''10.202.10.202''),
    ([CHR 0xD8, CHR 0xB3, CHR 0xD8, CHR 0xB1, CHR 0xD9, CHR 0x88, CHR 0xDB, CHR 0x8C, CHR 0xD8, CHR 0xB3, CHR 0x20, CHR 0x34, CHR 0x30, CHR 0x33], ''10.202.10.102''),
    ([CHR 0xD8, CHR 0xA8, CHR 0xDA, CHR 0xAF, CHR 0xD8, CHR 0xB0, CHR 0xD8, CHR 0xB1], ''185.55.226.26''),
    ([CHR 0xD8, CHR 0xA8, CHR 0xDA, CHR 0xAF, CHR 0xD8, CHR 0xB0, CHR 0xD8, CHR 0xB1], ''185.55.225.25''),
    ([CHR 0xD8, CHR 0xB4, CHR 0xDA, CHR 0xA9, CHR 0xD9, CHR 0x86], ''178.22.122.100''),
    ([CHR 0xD8, CHR 0xB4, CHR 0xDA, CHR 0xA9, CHR 0xD9, CHR 0x86], ''185.51.200.2''),
    ([CHR 0xD8, CHR 0xB4, CHR 0xD8, CHR 0xA7, CHR 0xD8, CHR 0xAA, CHR 0xD9, CHR 0x84], ''85.15.1.14''),
    ([CHR 0xD8, CHR 0xB4, CHR 0xD8, CHR 0xA7, CHR 0xD8, CHR 0xAA, CHR 0xD9, CHR 0x84], ''85.15.1.15''),
    ([CHR 0xD8, CHR 0xA7, CHR 0xD9, CHR 0x84, CHR 0xDA, CHR 0xA9, CHR 0xD8, CHR 0xAA, CHR 0xD8, CHR 0xB1, CHR 0xD9, CHR 0x88], ''78.157.42.100''),
    ([CHR 0xD8, CHR 0xA7, CHR 0xD9, CHR 0x84, CHR 0xDA, CHR 0xA9, CHR 0xD8, CHR 0xAA, CHR 0xD8, CHR 0xB1, CHR 0xD9, CHR 0x88], ''78.157.42.101''),
    ([CHR 0xD9, CHR 0x87, CHR 0xD8, CHR 0xA7, CHR 0xD8, CHR 0xB3, CHR 0xD8, CHR 0xAA, CHR 0xDB, CHR 0x8C, CHR 0xD8, CHR 0xB1, CHR 0xD8, CHR 0xA7, CHR 0xD9, CHR 0x86], ''172.29.2.100''),
    (''Server IR'', ''194.104.158.48''),
    (''Server IR'', ''194.104.158.78''),
    (''Level3'', ''209.244.0.3''),
    (''Level3'', ''209.244.0.4''),
    (''OpenDNS'', ''208.67.222.222''),
    (''OpenDNS'', ''208.67.220.220''),
    (''Gaming DNS 1'', ''78.157.42.100''),
    (''Gaming DNS 1'', ''185.43.135.1''),
    (''Gaming DNS 2'', ''156.154.70.1''),
    (''Gaming DNS 2'', ''156.154.71.1''),
    (''Gaming DNS 3'', ''149.112.112.112''),
    (''Gaming DNS 3'', ''149.112.112.10''),
    (''Gaming DNS 4'', ''185.108.22.133''),
    (''Gaming DNS 4'', ''185.108.22.134''),
    (''Gaming DNS 5'', ''85.214.41.206''),
    (''Gaming DNS 5'', ''89.15.250.41''),
    (''Gaming DNS 6'', ''9.9.9.9''),
    (''Gaming DNS 6'', ''109.69.8.51''),
    (''Gaming DNS 7'', ''8.26.56.26''),
    (''Gaming DNS 7'', ''8.26.247.20''),
    (''Gaming DNS 8'', ''185.121.177.177''),
    (''Gaming DNS 8'', ''169.239.202.202''),
    (''Gaming DNS 9'', ''185.231.182.126''),
    (''Gaming DNS 9'', ''185.43.135.1''),
    (''Gaming DNS 10'', ''185.43.135.1''),
    (''Gaming DNS 10'', ''46.16.216.25''),
    (''Gaming DNS 11'', ''185.213.182.126''),
    (''Gaming DNS 11'', ''185.43.135.1''),
    (''Gaming DNS 12'', ''199.85.127.10''),
    (''Gaming DNS 12'', ''185.231.182.126''),
    (''Gaming DNS 13'', ''91.239.100.100''),
    (''Gaming DNS 13'', ''37.152.182.112''),
    (''Gaming DNS 14'', ''8.26.56.26''),
    (''Gaming DNS 14'', ''8.20.247.20''),
    (''Gaming DNS 15'', ''78.157.42.100''),
    (''Gaming DNS 15'', ''1.1.1.1''),
    (''Gaming DNS 16'', ''87.135.66.81''),
    (''Gaming DNS 16'', ''76.76.10.4''),
    ([CHR 0xD9, CHR 0x85, CHR 0xD8, CHR 0xAE, CHR 0xD8, CHR 0xA7, CHR 0xD8, CHR 0xA8, CHR 0xD8, CHR 0xB1, CHR 0xD8, CHR 0xA7, CHR 0xD8, CHR 0xAA, CHR 0x2F, CHR 0xD8, CHR 0xB4, CHR 0xD8, CHR 0xA7, CHR 0xD8, CHR 0xAA, CHR 0xD9, CHR 0x84, CHR 0x2F, CHR 0xD8, CHR 0xA2, CHR 0xD8, CHR 0xB3, CHR 0xDB, CHR 0x8C, CHR 0xD8, CHR 0xA7, CHR 0xD8, CHR 0xAA, CHR 0xDA, CHR 0xA9, CHR 0x2F, CHR 0xD8, CHR 0xB1, CHR 0xD8, CHR 0xA7, CHR 0xDB, CHR 0x8C, CHR 0xD8, CHR 0xAA, CHR 0xD9, CHR 0x84], ''91.239.100.100''),
    ([CHR 0xD9, CHR 0x85, CHR 0xD8, CHR 0xAE, CHR 0xD8, CHR 0xA7, CHR 0xD8, CHR 0xA8, CHR 0xD8, CHR 0xB1, CHR 0xD8, CHR 0xA7, CHR 0xD8, CHR 0xAA, CHR 0x2F, CHR 0xD8, CHR 0xB4, CHR 0xD8, CHR 0xA7, CHR 0xD8, CHR 0xAA, CHR 0xD9, CHR 0x84, CHR 0x2F, CHR 0xD8, CHR 0xA2, CHR 0xD8, CHR 0xB3, CHR 0xDB, CHR 0x8C, CHR 0xD8, CHR 0xA7, CHR 0xD8, CHR 0xAA, CHR 0xDA, CHR 0xA9, CHR 0x2F, CHR 0xD8, CHR 0xB1, CHR 0xD8, CHR 0xA7, CHR 0xDB, CHR 0x8C, CHR 0xD8, CHR 0xAA, CHR 0xD9, CHR 0x84], ''89.233.43.71''),
    ([CHR 0xD9, CHR 0xBE, CHR 0xD8, CHR 0xA7, CHR 0xD8, CHR 0xB1, CHR 0xD8, CHR 0xB3, CHR 0x20, CHR 0xD8, CHR 0xA2, CHR 0xD9, CHR 0x86, CHR 0xD9, CHR 0x84, CHR 0xD8, CHR 0xA7, CHR 0xDB, CHR 0x8C, CHR 0xD9, CHR 0x86], ''46.224.1.221''),
    ([CHR 0xD9, CHR 0xBE, CHR 0xD8, CHR 0xA7, CHR 0xD8, CHR 0xB1, CHR 0xD8, CHR 0xB3, CHR 0x20, CHR 0xD8, CHR 0xA2, CHR 0xD9, CHR 0x86, CHR 0xD9, CHR 0x84, CHR 0xD8, CHR 0xA7, CHR 0xDB, CHR 0x8C, CHR 0xD9, CHR 0x86], ''46.224.1.220''),
    ([CHR 0xD9, CHR 0x87, CHR 0xD9, CHR 0x85, CHR 0xD8, CHR 0xB1, CHR 0xD8, CHR 0xA7, CHR 0xD9, CHR 0x87, CHR 0x20, CHR 0xD8, CHR 0xA7, CHR 0xD9, CHR 0x88, CHR 0xD9, CHR 0x84], ''208.67.220.200''),
    ([CHR 0xD9, CHR 0x87, CHR 0xD9, CHR 0x85, CHR 0xD8, CHR 0xB1, CHR 0xD8, CHR 0xA7, CHR 0xD9, CHR 0x87, CHR 0x20, CHR 0xD8, CHR 0xA7, CHR 0xD9, CHR 0x88, CHR 0xD9, CHR 0x84], ''208.67.222.222''),
    ([CHR 0xD8, CHR 0xA7, CHR 0xDB, CHR 0x8C, CHR 0xD8, CHR 0xB1, CHR 0xD8, CHR 0xA7, CHR 0xD9, CHR 0x86, CHR 0xD8, CHR 0xB3, CHR 0xD9, CHR 0x84], ''109.69.8.51''),
    ([CHR 0xD8, CHR 0xA7, CHR 0xDB, CHR 0x8C, CHR 0xD8, CHR 0xB1, CHR 0xD8, CHR 0xA7, CHR 0xD9, CHR 0x86, CHR 0xD8, CHR 0xB3, CHR 0xD9, CHR 0x84], ''74.82.42.42''),
    ([CHR 0xD9, CHR 0x85, CHR 0xD8, CHR 0xAE, CHR 0xD8, CHR 0xA7, CHR 0xD8, CHR 0xA8, CHR 0xD8, CHR 0xB1, CHR 0xD8, CHR 0xA7, CHR 0xD8, CHR 0xAA], ''8.8.8.8''),
    ([CHR 0xD9, CHR 0x85, CHR 0xD8, CHR 0xAE, CHR 0xD8, CHR 0xA7, CHR 0xD8, CHR 0xA8, CHR 0xD8, CHR 0xB1, CHR 0xD8, CHR 0xA7, CHR 0xD8, CHR 0xAA], ''8.8.4.4''),
    ([CHR 0xD9, CHR 0x85, CHR 0xD8, CHR 0xAE, CHR 0xD8, CHR 0xA7, CHR 0xD8, CHR 0xA8, CHR 0xD8, CHR 0xB1, CHR 0xD8, CHR 0xA7, CHR 0xD8, CHR 0xAA], ''4.4.4.4''),
    ([CHR 0xD9, CHR 0x85, CHR 0xD8, CHR 0xAE, CHR 0xD8, CHR 0xA7, CHR 0xD8, CHR 0xA8, CHR 0xD8, CHR 0xB1, CHR 0xD8, CHR 0xA7, CHR 0xD8, CHR 0xAA], ''4.2.2.4''),
    ([CHR 0xD9, CHR 0x85, CHR 0xD8, CHR 0xAE, CHR 0xD8, CHR 0xA7, CHR 0xD8, CHR 0xA8, CHR 0xD8, CHR 0xB1, CHR 0xD8, CHR 0xA7, CHR 0xD8, CHR 0xAA], ''195.46.39.39''),
    ([CHR 0xD9, CHR 0x85, CHR 0xD8, CHR 0xAE, CHR 0xD8, CHR 0xA7, CHR 0xD8, CHR 0xA8, CHR 0xD8, CHR 0xB1, CHR 0xD8, CHR 0xA7, CHR 0xD8, CHR 0xAA], ''195.46.39.40''),
    ([CHR 0xD9, CHR 0x85, CHR 0xD8, CHR 0xA8, CHR 0xDB, CHR 0x8C, CHR 0xD9, CHR 0x86, CHR 0x20, CHR 0xD9, CHR 0x86, CHR 0xD8, CHR 0xAA], ''10.44.8.8''),
    ([CHR 0xD9, CHR 0x85, CHR 0xD8, CHR 0xA8, CHR 0xDB, CHR 0x8C, CHR 0xD9, CHR 0x86, CHR 0x20, CHR 0xD9, CHR 0x86, CHR 0xD8, CHR 0xAA], ''8.8.8.8''),
    ([CHR 0xD8, CHR 0xB3, CHR 0xD8, CHR 0xA7, CHR 0xDB, CHR 0x8C, CHR 0xD8, CHR 0xB1, CHR 0x20, CHR 0xD8, CHR 0xA7, CHR 0xD9, CHR 0xBE, CHR 0xD8, CHR 0xB1, CHR 0xD8, CHR 0xA7, CHR 0xD8, CHR 0xAA, CHR 0xD9, CHR 0x88, CHR 0xD8, CHR 0xB1, CHR 0xD9, CHR 0x87, CHR 0xD8, CHR 0xA7], ''199.85.127.10''),
    ([CHR 0xD8, CHR 0xB3, CHR 0xD8, CHR 0xA7, CHR 0xDB, CHR 0x8C, CHR 0xD8, CHR 0xB1, CHR 0x20, CHR 0xD8, CHR 0xA7, CHR 0xD9, CHR 0xBE, CHR 0xD8, CHR 0xB1, CHR 0xD8, CHR 0xA7, CHR 0xD8, CHR 0xAA, CHR 0xD9, CHR 0x88, CHR 0xD8, CHR 0xB1, CHR 0xD9, CHR 0x87, CHR 0xD8, CHR 0xA7], ''199.85.126.10''),
    (''Cloudflare'', ''1.1.1.1''),
    (''Cloudflare'', ''1.0.0.1''),
    (''Google'', ''8.8.8.8''),
    (''Google'', ''8.8.4.4''),
    (''Quad9'', ''9.9.9.9''),
    (''Quad9'', ''149.112.112.112'')
  ]"

text \<open>\<open>_run(cmd, timeout)\<close>.\<close>

definition run :: "string list \<Rightarrow> rat option \<Rightarrow> world \<Rightarrow> (exn + completed) \<times> world" where
  "run cmd tmo w = subprocess_run (Argv cmd) tmo w"




subsection \<open>\<open>normalize_dns_list\<close>\<close>

text \<open>
  The \<open>for\<close> loop, with its two locals \<open>seen\<close> (a set) and \<open>out\<close> (a list that is
  appended to). The two \<open>continue\<close> branches are kept apart, in the order of the source.
\<close>

fun normalize_loop ::
  "(string \<times> string) list \<Rightarrow> string set \<Rightarrow> (string \<times> string) list \<Rightarrow> (string \<times> string) list"
where
  "normalize_loop [] seen out = out"
| "normalize_loop ((name, ip) # rest) seen out =
     (let ip' = py_strip ip in
      if ip' = ''0.0.0.0'' \<or> ip' = [] then normalize_loop rest seen out
      else if ip' \<in> seen then normalize_loop rest seen out
      else normalize_loop rest (insert ip' seen) (out @ [(py_strip name, ip')]))"

definition normalize_dns_list :: "(string \<times> string) list \<Rightarrow> (string \<times> string) list" where
  "normalize_dns_list raw = normalize_loop raw {} []"

subsection \<open>\<open>nslookup_latency_ms\<close>\<close>

text \<open>
  The loop \<open>for _ in range(REPEAT)\<close> with its accumulators \<open>total\<close> (here \<open>total_ms\<close>) and \<open>ok\<close>. The first
  argument counts the repetitions that remain. Both handlers (\<open>except
  subprocess.TimeoutExpired\<close> and the bare \<open>except\<close>) are \<open>pass\<close>: the loop goes on.
\<close>

fun nslookup_loop ::
  "nat \<Rightarrow> string \<Rightarrow> string \<Rightarrow> rat \<Rightarrow> nat \<Rightarrow> world \<Rightarrow> (rat \<times> nat) \<times> world"
where
  "nslookup_loop 0 domain dns_ip total_ms ok w = ((total_ms, ok), w)"
| "nslookup_loop (Suc k) domain dns_ip total_ms ok w =
     (case time_time w of (t0, w1) \<Rightarrow>
      (case run [''nslookup'', domain, dns_ip] (Some TIMEOUT) w1 of
         (Inr p, w2) \<Rightarrow>
           if returncode p = 0
           then (case time_time w2 of (t1, w3) \<Rightarrow>
                   nslookup_loop k domain dns_ip (total_ms + (t1 - t0) * 1000) (ok + 1) w3)
           else nslookup_loop k domain dns_ip total_ms ok w2
       | (Inl (TimeoutExpired m), w2) \<Rightarrow> nslookup_loop k domain dns_ip total_ms ok w2
       | (Inl (PyException m), w2) \<Rightarrow> nslookup_loop k domain dns_ip total_ms ok w2))"

definition nslookup_latency_ms :: "string \<Rightarrow> string \<Rightarrow> world \<Rightarrow> rat option \<times> world" where
  "nslookup_latency_ms domain dns_ip w =
     (case nslookup_loop REPEAT domain dns_ip 0 0 w of
        ((total_ms, ok), w') \<Rightarrow>
          if ok = 0 then (None, w') else (Some (py_round1 (total_ms / of_nat ok)), w'))"

subsection \<open>\<open>score_dns\<close>\<close>


subsection \<open>\<open>apply_dns\<close>\<close>






subsection \<open>\<open>scan_and_apply_best_dns\<close>\<close>







section \<open>socat\_manager.py\<close>

text \<open>\<open>run_command\<close>: a shell command with a timeout of ten seconds; it never raises.\<close>

definition run_command :: "string \<Rightarrow> world \<Rightarrow> (bool \<times> string \<times> string) \<times> world" where
  "run_command cmd w =
     (case subprocess_run (ShellCmd cmd) (Some 10) w of
        (Inr result, w') \<Rightarrow> ((returncode result = 0, stdout result, stderr result), w')
      | (Inl (TimeoutExpired m), w') \<Rightarrow> ((False, '''', ''Command timed out''), w')
      | (Inl (PyException m), w') \<Rightarrow> ((False, '''', m), w'))"

text \<open>
  The tunnel configuration object held by the manager. The manager reads
  \<open>forwarded_ports\<close> and \<open>remote_forward_ip\<close> and calls \<open>add_port\<close> and \<open>remove_port\<close>;
  these two are the ones of \<open>EasyTierConfig\<close> (easytier\_manager.py, lines 165 to 175),
  to which the wrapper of main.py delegates. \<open>list.remove\<close> deletes the first occurrence.
  Writing the document to disk is outside the model.
\<close>

record tunnel_config =
  tunnel_name :: string
  forwarded_ports :: "int list"
  remote_forward_ip :: "string option"

definition add_port :: "int \<Rightarrow> tunnel_config \<Rightarrow> tunnel_config" where
  "add_port port cfg =
     (if port \<notin> set (forwarded_ports cfg)
      then cfg\<lparr>forwarded_ports := forwarded_ports cfg @ [port]\<rparr> else cfg)"

definition remove_port :: "int \<Rightarrow> tunnel_config \<Rightarrow> tunnel_config" where
  "remove_port port cfg =
     (if port \<in> set (forwarded_ports cfg)
      then cfg\<lparr>forwarded_ports := remove1 port (forwarded_ports cfg)\<rparr> else cfg)"

text \<open>\<open>SocatManager\<close>: its only attribute is the optional configuration.\<close>

record socat_manager =
  config :: "tunnel_config option"

definition check_socat_installed :: "world \<Rightarrow> bool \<times> world" where
  "check_socat_installed w =
     (case run_command ''which socat'' w of ((success, out, err), w') \<Rightarrow> (success, w'))"

definition is_port_listening :: "int \<Rightarrow> world \<Rightarrow> bool \<times> world" where
  "is_port_listening port w =
     (case run_command (''netstat -tlnp 2>/dev/null | grep -E ':'' @ str_int port @
                          [CHR 0x5C] @ ''b'' @ [CHR 0x27]) w of
        ((success, out, err), w') \<Rightarrow> (success, w'))"

definition get_port_process :: "int \<Rightarrow> world \<Rightarrow> string option \<times> world" where
  "get_port_process port w =
     (case run_command (''lsof -i :'' @ str_int port @ '' -t 2>/dev/null | head -1'') w of
        ((success, out, err), w1) \<Rightarrow>
          if success \<and> py_strip out \<noteq> []
          then (let pid = py_strip out in
                case run_command (''ps -p '' @ pid @ '' -o comm='') w1 of
                  ((ps_success, ps_out, ps_err), w2) \<Rightarrow>
                    (Some (py_strip ps_out @ '' (PID: '' @ pid @ '')''), w2))
          else (None, w1))"

text \<open>\<open>proc or 'unknown process'\<close>: \<open>None\<close> and the empty string are false.\<close>

definition proc_or_unknown :: "string option \<Rightarrow> string" where
  "proc_or_unknown proc =
     (case proc of None \<Rightarrow> ''unknown process''
      | Some s \<Rightarrow> if s = [] then ''unknown process'' else s)"

definition start_forward :: "int \<Rightarrow> string \<Rightarrow> int \<Rightarrow> world \<Rightarrow> (bool \<times> string) \<times> world" where
  "start_forward local_port remote_ip remote_port w =
     (case check_socat_installed w of (installed, w1) \<Rightarrow>
        if \<not> installed
        then ((False, ''socat is not installed. Install with: apt-get install socat''), w1)
        else (case is_port_listening local_port w1 of (listening, w2) \<Rightarrow>
                if listening
                then (case get_port_process local_port w2 of (proc, w3) \<Rightarrow>
                        ((False, ''Port '' @ str_int local_port @ '' is already in use by: '' @
                            proc_or_unknown proc), w3))
                else (case run_command
                             (''nohup socat TCP-LISTEN:'' @ str_int local_port @
                              '',fork,reuseaddr TCP:'' @ remote_ip @ '':'' @ str_int remote_port @
                              '' >/dev/null 2>&1 &'') w2 of
                        ((success, out, err), w3) \<Rightarrow>
                          if \<not> success then ((False, ''Failed to start socat: '' @ err), w3)
                          else (case is_port_listening local_port (time_sleep (1 / 2) w3) of
                                  (started, w4) \<Rightarrow>
                                    if started
                                    then ((True, ''Socat forward started: '' @ str_int local_port @
                                             '' '' @ [CHR 0xE2, CHR 0x86, CHR 0x92] @ '' '' @
                                             remote_ip @ '':'' @ str_int remote_port), w4)
                                    else ((False,
                                            ''Socat process did not start successfully (check logs)''),
                                          w4)))))"

definition stop_forward :: "int \<Rightarrow> world \<Rightarrow> (bool \<times> string) \<times> world" where
  "stop_forward local_port w =
     (case is_port_listening local_port w of (listening, w1) \<Rightarrow>
        if \<not> listening
        then ((True, ''Port '' @ str_int local_port @ '' is not being forwarded''), w1)
        else (case run_command (''pkill -f 'socat.*TCP-LISTEN:'' @ str_int local_port @
                                 ''[^0-9]'' @ [CHR 0x27]) w1 of
                (r, w2) \<Rightarrow>
                  (case is_port_listening local_port (time_sleep (1 / 2) w2) of
                     (still, w3) \<Rightarrow>
                       if \<not> still
                       then ((True, ''Stopped socat forward on port '' @ str_int local_port), w3)
                       else ((False, ''Failed to stop socat on port '' @ str_int local_port), w3))))"

text \<open>
  \<open>create_forward\<close> and \<open>remove_forward\<close>. \<open>not self.config\<close> holds for \<open>None\<close>;
  \<open>not remote_ip\<close> holds for \<open>None\<close> and for the empty string. The manager is returned
  with the configuration as the call leaves it.
\<close>

definition create_forward ::
  "int \<Rightarrow> socat_manager \<Rightarrow> world \<Rightarrow> (bool \<times> string) \<times> socat_manager \<times> world" where
  "create_forward port m w =
     (case config m of
        None \<Rightarrow> ((False, ''No tunnel configuration provided''), m, w)
      | Some cfg \<Rightarrow>
          if port \<in> set (forwarded_ports cfg)
          then ((False, ''Port '' @ str_int port @ '' already in forwarded list''), m, w)
          else (case remote_forward_ip cfg of
                  None \<Rightarrow> ((False, ''Remote forward IP not configured for this tunnel''), m, w)
                | Some remote_ip \<Rightarrow>
                    if remote_ip = []
                    then ((False, ''Remote forward IP not configured for this tunnel''), m, w)
                    else (case start_forward port remote_ip port w of
                            ((success, msg), w1) \<Rightarrow>
                              if \<not> success then ((False, msg), m, w1)
                              else ((True, ''Port forward for '' @ str_int port @
                                       '' started (socat)''),
                                    m\<lparr>config := Some (add_port port cfg)\<rparr>, w1))))"

definition remove_forward ::
  "int \<Rightarrow> socat_manager \<Rightarrow> world \<Rightarrow> (bool \<times> string) \<times> socat_manager \<times> world" where
  "remove_forward port m w =
     (case config m of
        None \<Rightarrow> ((False, ''No tunnel configuration provided''), m, w)
      | Some cfg \<Rightarrow>
          if port \<notin> set (forwarded_ports cfg)
          then ((False, ''Port '' @ str_int port @ '' is not in forwarded list''), m, w)
          else (case stop_forward port w of
                  ((success, msg), w1) \<Rightarrow>
                    if \<not> success then ((False, msg), m, w1)
                    else ((True, ''Port forward '' @ str_int port @ '' removed''),
                          m\<lparr>config := Some (remove_port port cfg)\<rparr>, w1)))"

subsection \<open>The bulk helpers\<close>

text \<open>
  The parsing loop shared by both helpers. \<open>None\<close> is the \<open>ValueError\<close> that the
  \<open>except\<close> clause catches: \<open>int\<close> on a malformed piece, or the unpacking of
  \<open>start, end\<close> from a number of pieces other than two. \<open>range(start, end + 1)\<close> is
  \<open>[start..end]\<close>.
\<close>

fun parse_ports_loop :: "string list \<Rightarrow> int list \<Rightarrow> int list option" where
  "parse_ports_loop [] ports = Some ports"
| "parse_ports_loop (raw_part # rest) ports =
     (let part = py_strip raw_part in
      if CHR ''-'' \<in> set part
      then (case map py_int (py_split CHR ''-'' part) of
              [Some start, Some end_port] \<Rightarrow> parse_ports_loop rest (ports @ [start..end_port])
            | _ \<Rightarrow> None)
      else (case py_int part of
              None \<Rightarrow> None
            | Some p \<Rightarrow> parse_ports_loop rest (ports @ [p])))"

definition parse_ports :: "string \<Rightarrow> int list option" where
  "parse_ports ports_str = parse_ports_loop (py_split CHR '','' ports_str) []"



text \<open>
  The loop of \<open>remove_multiple_forwards\<close> reads \<open>self.config.forwarded_ports\<close> before
  \<open>remove_forward\<close> has looked at \<open>self.config\<close>: without a configuration the attribute
  access raises \<open>AttributeError\<close>, which nothing catches.
\<close>

fun remove_loop ::
  "int list \<Rightarrow> string list \<Rightarrow> socat_manager \<Rightarrow> world \<Rightarrow>
     (exn + string list) \<times> socat_manager \<times> world" where
  "remove_loop [] results m w = (Inr results, m, w)"
| "remove_loop (port # rest) results m w =
     (case config m of
        None \<Rightarrow> (Inl (PyException ''AttributeError''), m, w)
      | Some cfg \<Rightarrow>
          if port \<in> set (forwarded_ports cfg)
          then (case remove_forward port m w of
                  ((success, msg), m1, w1) \<Rightarrow> remove_loop rest (results @ [msg]) m1 w1)
          else remove_loop rest results m w)"

definition remove_multiple_forwards ::
  "string \<Rightarrow> socat_manager \<Rightarrow> world \<Rightarrow> (exn + bool \<times> string) \<times> socat_manager \<times> world" where
  "remove_multiple_forwards ports_str m w =
     (case parse_ports ports_str of
        None \<Rightarrow> (Inr (False, ''Invalid port format''), m, w)
      | Some ports \<Rightarrow>
          (case remove_loop ports [] m w of
             (Inl e, m1, w1) \<Rightarrow> (Inl e, m1, w1)
           | (Inr results, m1, w1) \<Rightarrow> (Inr (True, py_join ''\<newline>'' results), m1, w1)))"

subsection \<open>Stopping every relay\<close>

definition stop_all_forwards :: "world \<Rightarrow> (bool \<times> string) \<times> world" where
  "stop_all_forwards w =
     (case run_command (''pkill -f 'socat.*TCP-LISTEN'' @ [CHR 0x27]) w of
        (r, w1) \<Rightarrow>
          (case run_command (''pgrep -f 'socat.*TCP-LISTEN'' @ [CHR 0x27]) (time_sleep (1 / 2) w1) of
             ((success, out, err), w2) \<Rightarrow>
               if success \<and> py_strip out \<noteq> []
               then ((False, ''Some socat processes failed to stop''), w2)
               else ((True, ''All socat forwards stopped''), w2)))"

definition stop_all_socat :: "world \<Rightarrow> (bool \<times> string) \<times> world" where
  "stop_all_socat w = stop_all_forwards w"

section \<open>main.py: switching the forward mode\<close>

text \<open>
  Modelled from the spec: \<open>get_forward_mode\<close> and \<open>set_forward_mode\<close> belong to the module
  \<open>vortexl2.forward\<close>, which is outside the sources at hand. The spec describes the mode
  as one persisted value that a switch overwrites (ModeController: ``persist
  \<open>newMode\<close>''; ``Mode value persists across process restarts''). It is the field
  \<open>forward_mode\<close> of the host; storing it is an event.
\<close>

definition get_forward_mode :: "world \<Rightarrow> string" where
  "get_forward_mode w = forward_mode w"

definition set_forward_mode :: "string \<Rightarrow> world \<Rightarrow> world" where
  "set_forward_mode new_mode w = emit (SetForwardMode new_mode) (w\<lparr>forward_mode := new_mode\<rparr>)"

text \<open>
  \<open>subprocess.run(cmd, shell=True, capture_output=True)\<close> with the result dropped, as
  main.py calls it; an exception of the call is not caught there.
\<close>

definition shell :: "string \<Rightarrow> world \<Rightarrow> exn option \<times> world" where
  "shell cmd w =
     (case subprocess_run (ShellCmd cmd) None w of
        (Inl e, w') \<Rightarrow> (Some e, w')
      | (Inr result, w') \<Rightarrow> (None, w'))"

definition restart_forward_daemon :: "world \<Rightarrow> exn option \<times> world" where
  "restart_forward_daemon w =
     (let mode = get_forward_mode w in
      case (if mode = ''haproxy'' then shell ''systemctl start haproxy'' w else (None, w)) of
        (Some e, w1) \<Rightarrow> (Some e, w1)
      | (None, w1) \<Rightarrow> shell ''systemctl restart vortexl2-forward-daemon'' w1)"

text \<open>The chain \<open>if mode_choice == "1": ... elif ...\<close>; \<open>None\<close> when no branch is taken.\<close>

definition new_mode_of_choice :: "string \<Rightarrow> string option" where
  "new_mode_of_choice mode_choice =
     (if mode_choice = ''1'' then Some ''none''
      else if mode_choice = ''2'' then Some ''haproxy''
      else if mode_choice = ''3'' then Some ''socat''
      else None)"

text \<open>
  Choice 6 of \<open>handle_forwards_menu\<close> (lines 305 to 330). \<open>current_mode\<close> was read by
  \<open>get_forward_mode()\<close> at the head of the menu loop; \<open>mode_choice\<close> is the answer of
  \<open>ui.show_forward_mode_menu\<close> and \<open>start_now\<close> the answer of \<open>ui.Confirm.ask\<close>, which is
  asked only on the path that uses it. What the menu prints is left out.
\<close>

definition handle_forwards_menu_choice6 :: "string \<Rightarrow> bool \<Rightarrow> world \<Rightarrow> exn option \<times> world" where
  "handle_forwards_menu_choice6 mode_choice start_now w =
     (let current_mode = get_forward_mode w in
      case new_mode_of_choice mode_choice of
        None \<Rightarrow> (None, w)
      | Some new_mode \<Rightarrow>
          if new_mode = current_mode then (None, w)
          else (case (if current_mode = ''haproxy'' then shell ''systemctl stop haproxy'' w
                      else if current_mode = ''socat''
                      then (case stop_all_socat w of (r, w') \<Rightarrow> (None, w'))
                      else (None, w)) of
                  (Some e, w1) \<Rightarrow> (Some e, w1)
                | (None, w1) \<Rightarrow>
                    (let w2 = set_forward_mode new_mode w1 in
                     if new_mode \<noteq> ''none''
                     then (if start_now then restart_forward_daemon w2 else (None, w2))
                     else shell ''systemctl stop haproxy'' w2)))"

text \<open>Choice 6 of \<open>handle_easytier_forwards_menu\<close> (lines 607 to 622).\<close>

definition handle_easytier_forwards_menu_choice6 :: "string \<Rightarrow> world \<Rightarrow> exn option \<times> world" where
  "handle_easytier_forwards_menu_choice6 mode_choice w =
     (let current_mode = get_forward_mode w in
      case new_mode_of_choice mode_choice of
        None \<Rightarrow> (None, w)
      | Some new_mode \<Rightarrow>
          if new_mode = current_mode then (None, w)
          else (let w1 = set_forward_mode new_mode w in
                if new_mode \<noteq> ''none'' then restart_forward_daemon w1 else (None, w1)))"

section \<open>Vocabulary of the properties\<close>

text \<open>An address that \<open>normalize_dns_list\<close> keeps: neither \<open>0.0.0.0\<close> nor empty.\<close>

definition valid_ip :: "string \<Rightarrow> bool" where
  "valid_ip a = (a \<noteq> ''0.0.0.0'' \<and> a \<noteq> [])"

text \<open>
  The probe in the words of the spec. One resolution attempt asks the host once; it
  counts as a success, with the elapsed wall-clock time in milliseconds, when the process
  exits with code zero, and as one more failed attempt when it exits with another code
  or the call raises (a timeout or anything else).
\<close>

definition attempt :: "string \<Rightarrow> string \<Rightarrow> world \<Rightarrow> rat option \<times> world" where
  "attempt domain dns_ip w =
     (let t0 = clock w (trace w);
          w1 = emit TimeRead w;
          answer = exec w1 (trace w1) (Argv [''nslookup'', domain, dns_ip]);
          w2 = emit (Run (Argv [''nslookup'', domain, dns_ip]) (Some TIMEOUT)) w1
      in case answer of
           Inl e \<Rightarrow> (None, w2)
         | Inr p \<Rightarrow>
             if returncode p = 0
             then (Some ((clock w2 (trace w2) - t0) * 1000), emit TimeRead w2)
             else (None, w2))"

fun attempts :: "nat \<Rightarrow> string \<Rightarrow> string \<Rightarrow> world \<Rightarrow> rat option list \<times> world" where
  "attempts 0 domain dns_ip w = ([], w)"
| "attempts (Suc k) domain dns_ip w =
     (case attempt domain dns_ip w of
        (outcome, w1) \<Rightarrow>
          (case attempts k domain dns_ip w1 of (outcomes, w2) \<Rightarrow> (outcome # outcomes, w2)))"

fun successes :: "rat option list \<Rightarrow> rat list" where
  "successes [] = []"
| "successes (None # outcomes) = successes outcomes"
| "successes (Some ms # outcomes) = ms # successes outcomes"

text \<open>The mean of the successful attempts, rounded; the absence marker when there is none.\<close>

definition mean_of_successes :: "rat option list \<Rightarrow> rat option" where
  "mean_of_successes outcomes =
     (if successes outcomes = [] then None
      else Some (py_round1 (sum_list (successes outcomes) / of_nat (length (successes outcomes)))))"


definition nslookup_event :: "string \<Rightarrow> string \<Rightarrow> event" where
  "nslookup_event domain dns_ip = Run (Argv [''nslookup'', domain, dns_ip]) (Some TIMEOUT)"










section \<open>Concrete inputs\<close>

text \<open>
  A catalog with a repeated address (once padded with blanks), the unspecified address
  and an empty address.
\<close>

definition raw_example :: "(string \<times> string) list" where
  "raw_example =
     [(''A'', ''1.1.1.1''), (''B'', '' 1.1.1.1 ''), (''C'', ''0.0.0.0''), (''D'', ''''),
      ('' E'', ''8.8.8.8'')]"

text \<open>
  A host for the scan. Every command exits with code zero, except \<open>nslookup\<close> against
  \<open>10.0.0.1\<close>, which times out, and against \<open>10.0.0.2\<close>, which exits with code one.
  The clock is the sum of the durations of the commands run so far: a lookup through
  \<open>8.8.8.8\<close> takes 40 ms, any other lookup 10 ms for the first test domain and 20 ms for
  the second.
\<close>

definition nslookup_args :: "command \<Rightarrow> (string \<times> string) option" where
  "nslookup_args c =
     (case c of
        Argv [n, d, a] \<Rightarrow> if n = ''nslookup'' then Some (d, a) else None
      | _ \<Rightarrow> None)"

definition scan_exec :: "event list \<Rightarrow> command \<Rightarrow> exn + completed" where
  "scan_exec t c =
     (case nslookup_args c of
        None \<Rightarrow> Inr (Completed 0 [] [])
      | Some (d, a) \<Rightarrow>
          if a = ''10.0.0.1'' then Inl (TimeoutExpired ''timed out after 2.8 seconds'')
          else if a = ''10.0.0.2'' then Inr (Completed 1 [] ''server can't find'')
          else Inr (Completed 0 [] []))"

definition duration_ms :: "event \<Rightarrow> rat" where
  "duration_ms e =
     (case e of
        Run c tmo \<Rightarrow>
          (case nslookup_args c of
             None \<Rightarrow> 0
           | Some (d, a) \<Rightarrow> if a = ''8.8.8.8'' then 40 else if d = TEST_DOMAIN_1 then 10 else 20)
      | _ \<Rightarrow> 0)"

definition scan_clock :: "event list \<Rightarrow> rat" where
  "scan_clock t = sum_list (map duration_ms t) / 1000"

definition scan_host :: world where
  "scan_host = \<lparr>trace = [], exec = scan_exec, clock = scan_clock, fs = (\<lambda>t e. None),
     forward_mode = ''none''\<rparr>"


text \<open>
  Hosts for the relay driver. On \<open>relay_host\<close> a port listens from the moment a relay was
  started (\<open>nohup socat ...\<close>) until the next \<open>pkill\<close>; nothing listens at first. On
  \<open>busy_host\<close> every port is taken by the process \<open>nginx\<close> with the identifier 4242. On
  \<open>no_socat_host\<close> every port is taken and \<open>which socat\<close> fails.
\<close>

definition relay_listening :: "event list \<Rightarrow> bool" where
  "relay_listening t =
     foldl (\<lambda>b e. case e of
                      Run (ShellCmd s) tmo \<Rightarrow>
                        if take 11 s = ''nohup socat'' then True
                        else if take 5 s = ''pkill'' then False else b
                    | _ \<Rightarrow> b) False t"

definition relay_exec :: "event list \<Rightarrow> command \<Rightarrow> exn + completed" where
  "relay_exec t c =
     (case c of
        ShellCmd s \<Rightarrow>
          if take 7 s = ''netstat''
          then (if relay_listening t then Inr (Completed 0 ''tcp LISTEN'' [])
                else Inr (Completed 1 [] []))
          else Inr (Completed 0 [] [])
      | Argv a \<Rightarrow> Inr (Completed 0 [] []))"

definition relay_host :: world where
  "relay_host = \<lparr>trace = [], exec = relay_exec, clock = (\<lambda>t. 0), fs = (\<lambda>t e. None),
     forward_mode = ''socat''\<rparr>"

definition busy_exec :: "event list \<Rightarrow> command \<Rightarrow> exn + completed" where
  "busy_exec t c =
     (case c of
        ShellCmd s \<Rightarrow>
          if take 4 s = ''lsof'' then Inr (Completed 0 ''4242\<newline>'' [])
          else if take 2 s = ''ps'' then Inr (Completed 0 ''nginx\<newline>'' [])
          else Inr (Completed 0 ''tcp LISTEN'' [])
      | Argv a \<Rightarrow> Inr (Completed 0 [] []))"

definition busy_host :: world where
  "busy_host = \<lparr>trace = [], exec = busy_exec, clock = (\<lambda>t. 0), fs = (\<lambda>t e. None),
     forward_mode = ''socat''\<rparr>"

definition no_socat_exec :: "event list \<Rightarrow> command \<Rightarrow> exn + completed" where
  "no_socat_exec t c =
     (if c = ShellCmd ''which socat'' then Inr (Completed 1 [] []) else busy_exec t c)"

definition no_socat_host :: world where
  "no_socat_host = \<lparr>trace = [], exec = no_socat_exec, clock = (\<lambda>t. 0), fs = (\<lambda>t e. None),
     forward_mode = ''socat''\<rparr>"

text \<open>Managers: a tunnel towards \<open>10.0.0.9\<close> that forwards port 443, one without a remote
  address, and a manager without a configuration.\<close>

definition tunnel_manager :: socat_manager where
  "tunnel_manager =
     \<lparr>config = Some \<lparr>tunnel_name = ''t1'', forwarded_ports = [443],
                       remote_forward_ip = Some ''10.0.0.9''\<rparr>\<rparr>"

definition no_remote_manager :: socat_manager where
  "no_remote_manager =
     \<lparr>config = Some \<lparr>tunnel_name = ''t2'', forwarded_ports = [],
                       remote_forward_ip = None\<rparr>\<rparr>"

definition bare_manager :: socat_manager where
  "bare_manager = \<lparr>config = None\<rparr>"





section \<open>Normalisation of the catalog\<close>

lemma normalize_loop_step:
  "normalize_loop ((name, ip) # rest) seen out =
     (if \<not> valid_ip (py_strip ip) \<or> py_strip ip \<in> seen then normalize_loop rest seen out
      else normalize_loop rest (insert (py_strip ip) seen) (out @ [(py_strip name, py_strip ip)]))"
  by (simp add: valid_ip_def Let_def)

lemma normalize_loop_valid:
  "\<forall>e \<in> set out. valid_ip (snd e) \<Longrightarrow>
   \<forall>e \<in> set (normalize_loop raw seen out). valid_ip (snd e)"
proof (induction raw arbitrary: seen out)
  case Nil
  then show ?case by simp
next
  case (Cons e rest)
  obtain name ip where e: "e = (name, ip)" by (cases e)
  show ?case
  proof (cases "\<not> valid_ip (py_strip ip) \<or> py_strip ip \<in> seen")
    case True
    then show ?thesis unfolding e normalize_loop_step using Cons by simp
  next
    case False
    have "\<forall>e \<in> set (out @ [(py_strip name, py_strip ip)]). valid_ip (snd e)"
      using Cons.prems False by simp
    from Cons.IH [OF this] show ?thesis unfolding e normalize_loop_step using False by simp
  qed
qed

lemma normalize_loop_distinct:
  "distinct (map snd out) \<Longrightarrow> snd ` set out \<subseteq> seen \<Longrightarrow>
   distinct (map snd (normalize_loop raw seen out))"
proof (induction raw arbitrary: seen out)
  case Nil
  then show ?case by simp
next
  case (Cons e rest)
  obtain name ip where e: "e = (name, ip)" by (cases e)
  show ?case
  proof (cases "\<not> valid_ip (py_strip ip) \<or> py_strip ip \<in> seen")
    case True
    then show ?thesis unfolding e normalize_loop_step using Cons by simp
  next
    case False
    have 1: "distinct (map snd (out @ [(py_strip name, py_strip ip)]))"
      using Cons.prems False by auto
    have 2: "snd ` set (out @ [(py_strip name, py_strip ip)]) \<subseteq> insert (py_strip ip) seen"
      using Cons.prems by auto
    from Cons.IH [OF 1 2] show ?thesis unfolding e normalize_loop_step using False by simp
  qed
qed

text \<open>
  An entry of the result was in \<open>out\<close> before, or it was made from the first entry of the
  remaining input that carries its address.
\<close>

lemma normalize_loop_first:
  "(n, a) \<in> set (normalize_loop raw seen out) \<Longrightarrow>
   (n, a) \<in> set out \<or>
   (a \<notin> seen \<and> valid_ip a \<and>
    (\<exists>n0 a0. List.find (\<lambda>r. py_strip (snd r) = a) raw = Some (n0, a0) \<and> n = py_strip n0))"
proof (induction raw arbitrary: seen out)
  case Nil
  then show ?case by simp
next
  case (Cons e rest)
  obtain name ip where e: "e = (name, ip)" by (cases e)
  show ?case
  proof (cases "\<not> valid_ip (py_strip ip) \<or> py_strip ip \<in> seen")
    case True
    with Cons.prems have "(n, a) \<in> set (normalize_loop rest seen out)"
      unfolding e normalize_loop_step by simp
    from Cons.IH [OF this] True show ?thesis unfolding e by auto
  next
    case False
    with Cons.prems have "(n, a) \<in> set (normalize_loop rest (insert (py_strip ip) seen)
         (out @ [(py_strip name, py_strip ip)]))"
      unfolding e normalize_loop_step by simp
    from Cons.IH [OF this] False show ?thesis unfolding e by auto
  qed
qed

lemma normalize_dns_list_distinct: "distinct (map snd (normalize_dns_list raw))"
  unfolding normalize_dns_list_def by (rule normalize_loop_distinct) simp_all

lemma normalize_dns_list_valid: "e \<in> set (normalize_dns_list raw) \<Longrightarrow> valid_ip (snd e)"
  using normalize_loop_valid [of "[]" raw "{}"] unfolding normalize_dns_list_def by simp

lemma normalize_dns_list_first:
  assumes "e \<in> set (normalize_dns_list raw)"
  shows "\<exists>n0 a0. List.find (\<lambda>r. py_strip (snd r) = snd e) raw = Some (n0, a0) \<and>
           fst e = py_strip n0"
proof -
  from assms have "(fst e, snd e) \<in> set (normalize_loop raw {} [])"
    by (simp add: normalize_dns_list_def)
  from normalize_loop_first [OF this] show ?thesis by simp
qed

text \<open>
  Claim C8. For every raw candidate list, the addresses of the normalised list are
  pairwise distinct, none is \<open>0.0.0.0\<close> and none is empty, and every entry kept comes
  from the first entry of the input whose stripped address is that address: its name is
  the stripped name of that first occurrence.
\<close>

theorem normalize_dns_list_unique_valid_first:
  "distinct (map snd (normalize_dns_list raw)) \<and>
   (\<forall>e \<in> set (normalize_dns_list raw).
      snd e \<noteq> ''0.0.0.0'' \<and> snd e \<noteq> [] \<and>
      (\<exists>n0 a0. List.find (\<lambda>r. py_strip (snd r) = snd e) raw = Some (n0, a0) \<and>
         fst e = py_strip n0))"
proof (intro conjI ballI)
  show "distinct (map snd (normalize_dns_list raw))"
    by (rule normalize_dns_list_distinct)
next
  fix e assume e: "e \<in> set (normalize_dns_list raw)"
  from normalize_dns_list_valid [OF e] show "snd e \<noteq> ''0.0.0.0''"
    unfolding valid_ip_def by (rule conjunct1)
  from normalize_dns_list_valid [OF e] show "snd e \<noteq> []"
    unfolding valid_ip_def by (rule conjunct2)
  from normalize_dns_list_first [OF e]
  show "\<exists>n0 a0. List.find (\<lambda>r. py_strip (snd r) = snd e) raw = Some (n0, a0) \<and>
         fst e = py_strip n0" .
qed


text \<open>
  The theorem at \<open>raw_example\<close>: the first name of the repeated address stays.
\<close>

theorem normalize_dns_list_unique_valid_first_witness:
  "normalize_dns_list raw_example = [(''A'', ''1.1.1.1''), (''E'', ''8.8.8.8'')] \<and>
   distinct (map snd (normalize_dns_list raw_example)) \<and>
   (\<exists>n0 a0. List.find (\<lambda>r. py_strip (snd r) = ''1.1.1.1'') raw_example = Some (n0, a0) \<and>
      ''A'' = py_strip n0) \<and>
   (\<exists>n0 a0. List.find (\<lambda>r. py_strip (snd r) = ''8.8.8.8'') raw_example = Some (n0, a0) \<and>
      ''E'' = py_strip n0)"
proof -
  have ev: "normalize_dns_list raw_example = [(''A'', ''1.1.1.1''), (''E'', ''8.8.8.8'')]"
    by code_simp
  note th = normalize_dns_list_unique_valid_first [of raw_example]
  from th have d: "distinct (map snd (normalize_dns_list raw_example))"
    by (rule conjunct1)
  from th have b: "\<forall>e \<in> set (normalize_dns_list raw_example).
      snd e \<noteq> ''0.0.0.0'' \<and> snd e \<noteq> [] \<and>
      (\<exists>n0 a0. List.find (\<lambda>r. py_strip (snd r) = snd e) raw_example = Some (n0, a0) \<and>
         fst e = py_strip n0)"
    by (rule conjunct2)
  have m1: "(''A'', ''1.1.1.1'') \<in> set (normalize_dns_list raw_example)"
    unfolding ev by simp
  have m2: "(''E'', ''8.8.8.8'') \<in> set (normalize_dns_list raw_example)"
    unfolding ev by simp
  from bspec [OF b m1]
  have c1: "\<exists>n0 a0. List.find (\<lambda>r. py_strip (snd r) = ''1.1.1.1'') raw_example = Some (n0, a0) \<and>
      ''A'' = py_strip n0"
    by (simp only: fst_conv snd_conv)
  from bspec [OF b m2]
  have c2: "\<exists>n0 a0. List.find (\<lambda>r. py_strip (snd r) = ''8.8.8.8'') raw_example = Some (n0, a0) \<and>
      ''E'' = py_strip n0"
    by (simp only: fst_conv snd_conv)
  from ev d c1 c2 show ?thesis by (intro conjI)
qed

text \<open>The catalog of the source has 75 entries; 58 addresses remain after normalisation.\<close>

lemma normalize_catalog_size:
  "length RAW_DNS_LIST = 75 \<and> length (normalize_dns_list RAW_DNS_LIST) = 58"
  by code_simp

section \<open>The probe\<close>

lemma trace_emit [simp]: "trace (emit e w) = trace w @ [e]"
  and exec_emit [simp]: "exec (emit e w) = exec w"
  and clock_emit [simp]: "clock (emit e w) = clock w"
  and fs_emit [simp]: "fs (emit e w) = fs w"
  and forward_mode_emit [simp]: "forward_mode (emit e w) = forward_mode w"
  by (simp_all add: emit_def)

lemma nslookup_loop_Suc:
  "nslookup_loop (Suc k) domain dns_ip total_ms ok w =
     (case attempt domain dns_ip w of
        (None, w') \<Rightarrow> nslookup_loop k domain dns_ip total_ms ok w'
      | (Some ms, w') \<Rightarrow> nslookup_loop k domain dns_ip (total_ms + ms) (ok + 1) w')"
  by (simp add: attempt_def run_def subprocess_run_def time_time_def Let_def
        split: sum.split exn.split)

lemma nslookup_loop_attempts:
  "nslookup_loop n domain dns_ip total_ms ok w =
     (case attempts n domain dns_ip w of
        (outcomes, w') \<Rightarrow>
          ((total_ms + sum_list (successes outcomes), ok + length (successes outcomes)), w'))"
proof (induction n arbitrary: total_ms ok w)
  case 0
  show ?case by simp
next
  case (Suc n)
  obtain outcome w1 where a: "attempt domain dns_ip w = (outcome, w1)"
    by (cases "attempt domain dns_ip w")
  obtain outcomes w2 where b: "attempts n domain dns_ip w1 = (outcomes, w2)"
    by (cases "attempts n domain dns_ip w1")
  show ?case
  proof (cases outcome)
    case None
    with a b Suc.IH [of total_ms ok w1] show ?thesis
      by (simp add: nslookup_loop_Suc del: nslookup_loop.simps)
  next
    case (Some ms)
    with a b Suc.IH [of "total_ms + ms" "ok + 1" w1] show ?thesis
      by (simp add: nslookup_loop_Suc add.assoc del: nslookup_loop.simps)
  qed
qed

lemma length_attempts: "length (fst (attempts n domain dns_ip w)) = n"
proof (induction n arbitrary: w)
  case 0
  show ?case by simp
next
  case (Suc n)
  obtain outcome w1 where a: "attempt domain dns_ip w = (outcome, w1)"
    by (cases "attempt domain dns_ip w")
  obtain outcomes w2 where b: "attempts n domain dns_ip w1 = (outcomes, w2)"
    by (cases "attempts n domain dns_ip w1")
  from Suc.IH [of w1] a b show ?case by simp
qed

lemma attempt_trace:
  "\<exists>evs. trace (snd (attempt domain dns_ip w)) = trace w @ evs \<and>
     set evs \<subseteq> {TimeRead, nslookup_event domain dns_ip} \<and>
     length (filter (\<lambda>e. e = nslookup_event domain dns_ip) evs) = 1"
  by (simp add: attempt_def Let_def nslookup_event_def split: sum.split)

lemma attempts_trace:
  "\<exists>evs. trace (snd (attempts n domain dns_ip w)) = trace w @ evs \<and>
     set evs \<subseteq> {TimeRead, nslookup_event domain dns_ip} \<and>
     length (filter (\<lambda>e. e = nslookup_event domain dns_ip) evs) = n"
proof (induction n arbitrary: w)
  case 0
  show ?case by simp
next
  case (Suc n)
  obtain outcome w1 where a: "attempt domain dns_ip w = (outcome, w1)"
    by (cases "attempt domain dns_ip w")
  obtain outcomes w2 where b: "attempts n domain dns_ip w1 = (outcomes, w2)"
    by (cases "attempts n domain dns_ip w1")
  from attempt_trace [of domain dns_ip w] a obtain evs1 where
    1: "trace w1 = trace w @ evs1" "set evs1 \<subseteq> {TimeRead, nslookup_event domain dns_ip}"
       "length (filter (\<lambda>e. e = nslookup_event domain dns_ip) evs1) = 1"
    by auto
  from Suc.IH [of w1] b obtain evs2 where
    2: "trace w2 = trace w1 @ evs2" "set evs2 \<subseteq> {TimeRead, nslookup_event domain dns_ip}"
       "length (filter (\<lambda>e. e = nslookup_event domain dns_ip) evs2) = n"
    by auto
  have "trace w2 = trace w @ (evs1 @ evs2)" using 1 2 by simp
  moreover have "set (evs1 @ evs2) \<subseteq> {TimeRead, nslookup_event domain dns_ip}"
    using 1 2 by simp
  moreover have "length (filter (\<lambda>e. e = nslookup_event domain dns_ip) (evs1 @ evs2)) = Suc n"
    using 1 2 by simp
  ultimately show ?case using a b by (simp del: append_assoc)
qed

lemma nslookup_latency_ms_attempts:
  "nslookup_latency_ms domain dns_ip w =
     (mean_of_successes (fst (attempts REPEAT domain dns_ip w)),
      snd (attempts REPEAT domain dns_ip w))"
  by (simp add: nslookup_latency_ms_def nslookup_loop_attempts mean_of_successes_def
        split: prod.split)

text \<open>
  A raised exception and a non-zero exit code cost the attempt and nothing else: the
  attempt is a failed one and the host is left for the next attempt.
\<close>

lemma attempt_failure_is_local:
  "exec w (trace w @ [TimeRead]) (Argv [''nslookup'', domain, dns_ip]) = Inl e \<Longrightarrow>
     fst (attempt domain dns_ip w) = None"
  "exec w (trace w @ [TimeRead]) (Argv [''nslookup'', domain, dns_ip]) = Inr p \<Longrightarrow>
     returncode p \<noteq> 0 \<Longrightarrow> fst (attempt domain dns_ip w) = None"
  by (simp_all add: attempt_def Let_def)

text \<open>
  Claim C7. For every domain, address and host, the probe makes two resolution attempts
  (\<open>REPEAT = 2\<close>; the trace grows by exactly two \<open>nslookup\<close> calls with the timeout, and
  by clock readings), and it returns the mean of the elapsed milliseconds of the
  successful attempts only, rounded to one decimal place, or \<open>None\<close> when no attempt
  succeeded. The result is a value for every host: an attempt that times out, raises
  or exits with a non-zero code is a failed attempt (\<open>attempt\<close>), never an exception of
  the probe.
\<close>

theorem nslookup_latency_ms_mean_of_successful_attempts:
  "\<exists>outcomes w' evs.
     attempts 2 domain dns_ip w = (outcomes, w') \<and> length outcomes = 2 \<and>
     nslookup_latency_ms domain dns_ip w = (mean_of_successes outcomes, w') \<and>
     trace w' = trace w @ evs \<and>
     set evs \<subseteq> {TimeRead, nslookup_event domain dns_ip} \<and>
     length (filter (\<lambda>e. e = nslookup_event domain dns_ip) evs) = 2"
proof -
  obtain outcomes w' where a: "attempts 2 domain dns_ip w = (outcomes, w')"
    by (cases "attempts 2 domain dns_ip w")
  from length_attempts [of 2 domain dns_ip w] a have l: "length outcomes = 2" by simp
  from nslookup_latency_ms_attempts [of domain dns_ip w] a
  have r: "nslookup_latency_ms domain dns_ip w = (mean_of_successes outcomes, w')"
    by (simp add: REPEAT_def)
  from attempts_trace [of 2 domain dns_ip w] a obtain evs where
    "trace w' = trace w @ evs" "set evs \<subseteq> {TimeRead, nslookup_event domain dns_ip}"
    "length (filter (\<lambda>e. e = nslookup_event domain dns_ip) evs) = 2"
    by auto
  with a l r show ?thesis by blast
qed

text \<open>
  The theorem at a server that lets both attempts time out: the probe returns the absence
  marker, not zero, after two attempts. Against a server that answers, it returns the
  mean, 10 ms.
\<close>

theorem nslookup_latency_ms_timeouts_witness:
  "fst (attempts 2 ''example.test'' ''10.0.0.1'' scan_host) = [None, None] \<and>
   trace (snd (attempts 2 ''example.test'' ''10.0.0.1'' scan_host)) =
     [TimeRead, nslookup_event ''example.test'' ''10.0.0.1'',
      TimeRead, nslookup_event ''example.test'' ''10.0.0.1''] \<and>
   fst (nslookup_latency_ms ''example.test'' ''10.0.0.1'' scan_host) = None \<and>
   fst (nslookup_latency_ms TEST_DOMAIN_1 ''1.1.1.1'' scan_host) = Some 10"
proof -
  have a: "fst (attempts 2 ''example.test'' ''10.0.0.1'' scan_host) = [None, None]"
    by code_simp
  have t: "trace (snd (attempts 2 ''example.test'' ''10.0.0.1'' scan_host)) =
     [TimeRead, nslookup_event ''example.test'' ''10.0.0.1'',
      TimeRead, nslookup_event ''example.test'' ''10.0.0.1'']"
    by code_simp
  from nslookup_latency_ms_mean_of_successful_attempts
    [of "''example.test''" "''10.0.0.1''" scan_host]
  obtain outcomes w' where
    "attempts 2 ''example.test'' ''10.0.0.1'' scan_host = (outcomes, w')"
    "nslookup_latency_ms ''example.test'' ''10.0.0.1'' scan_host = (mean_of_successes outcomes, w')"
    by blast
  with a have b: "fst (nslookup_latency_ms ''example.test'' ''10.0.0.1'' scan_host) = None"
    by (simp add: mean_of_successes_def)
  have c: "fst (nslookup_latency_ms TEST_DOMAIN_1 ''1.1.1.1'' scan_host) = Some 10"
    by code_simp
  from a t b c show ?thesis by (intro conjI)
qed

section \<open>Scoring\<close>












section \<open>Selection of the best server\<close>






section \<open>Single forwards of the relay driver\<close>

lemma add_port_ports:
  "forwarded_ports (add_port port cfg) =
     (if port \<in> set (forwarded_ports cfg) then forwarded_ports cfg
      else forwarded_ports cfg @ [port])"
  by (simp add: add_port_def)

lemma remove_port_ports:
  "forwarded_ports (remove_port port cfg) = remove1 port (forwarded_ports cfg)"
  by (simp add: remove_port_def remove1_idem)

lemma add_port_distinct:
  "distinct (forwarded_ports cfg) \<Longrightarrow> distinct (forwarded_ports (add_port port cfg))"
  by (simp add: add_port_ports)

lemma remove_port_distinct:
  "distinct (forwarded_ports cfg) \<Longrightarrow> distinct (forwarded_ports (remove_port port cfg))"
  by (simp add: remove_port_ports)

lemma count_list_distinct_member:
  "distinct xs \<Longrightarrow> x \<in> set xs \<Longrightarrow> count_list xs x = 1"
  by (induction xs) auto

lemma count_list_append_new:
  "x \<notin> set xs \<Longrightarrow> count_list (xs @ [x]) x = 1"
  by (induction xs) auto

lemma create_forward_present:
  "config m = Some cfg \<Longrightarrow> port \<in> set (forwarded_ports cfg) \<Longrightarrow>
     create_forward port m w =
       ((False, ''Port '' @ str_int port @ '' already in forwarded list''), m, w)"
  by (simp add: create_forward_def)

lemma remove_forward_absent:
  "config m = Some cfg \<Longrightarrow> port \<notin> set (forwarded_ports cfg) \<Longrightarrow>
     remove_forward port m w =
       ((False, ''Port '' @ str_int port @ '' is not in forwarded list''), m, w)"
  by (simp add: remove_forward_def)

text \<open>A call of \<open>create_forward\<close> that reports success has appended the port, once.\<close>

lemma create_forward_success:
  assumes "config m = Some cfg" and "create_forward port m w = ((True, msg), m1, w1)"
  shows "port \<notin> set (forwarded_ports cfg) \<and>
         m1 = m\<lparr>config := Some (add_port port cfg)\<rparr> \<and>
         forwarded_ports (add_port port cfg) = forwarded_ports cfg @ [port]"
  using assms
  by (auto simp: create_forward_def add_port_ports
        split: if_splits option.splits prod.splits)

text \<open>A call that reports failure leaves the manager, and so the configuration, as it was.\<close>

lemma create_forward_failure:
  "create_forward port m w = ((False, msg), m1, w1) \<Longrightarrow> m1 = m"
  by (auto simp: create_forward_def split: if_splits option.splits prod.splits)

text \<open>
  Claim C6. For every manager with a tunnel configuration, every port and every host:
  \<open>create_forward\<close> on a port that is in the forwarded list returns the
  already-forwarded outcome as a value and changes neither the configuration nor the
  host; the list being free of duplicates (the invariant that \<open>add_port\<close> keeps), it
  holds exactly one entry for the port. In particular a second \<open>create_forward\<close> right
  after a successful one is rejected, and the port is in the list once. \<open>remove_forward\<close>
  on a port that is not in the list returns the not-forwarded outcome and changes
  nothing.
\<close>

theorem create_present_remove_absent:
  assumes "config m = Some cfg"
  shows "(port \<in> set (forwarded_ports cfg) \<longrightarrow>
            create_forward port m w =
              ((False, ''Port '' @ str_int port @ '' already in forwarded list''), m, w) \<and>
            (distinct (forwarded_ports cfg) \<longrightarrow> count_list (forwarded_ports cfg) port = 1)) \<and>
         (\<forall>msg m1 w1 w2.
            create_forward port m w = ((True, msg), m1, w1) \<longrightarrow>
            (\<exists>cfg1. config m1 = Some cfg1 \<and>
               create_forward port m1 w2 =
                 ((False, ''Port '' @ str_int port @ '' already in forwarded list''), m1, w2) \<and>
               count_list (forwarded_ports cfg1) port = 1)) \<and>
         (port \<notin> set (forwarded_ports cfg) \<longrightarrow>
            remove_forward port m w =
              ((False, ''Port '' @ str_int port @ '' is not in forwarded list''), m, w))"
proof (intro conjI impI allI)
  assume p: "port \<in> set (forwarded_ports cfg)"
  from create_forward_present [OF assms p]
  show "create_forward port m w =
      ((False, ''Port '' @ str_int port @ '' already in forwarded list''), m, w)" .
  assume "distinct (forwarded_ports cfg)"
  from count_list_distinct_member [OF this p]
  show "count_list (forwarded_ports cfg) port = 1" .
next
  fix msg m1 w1 w2
  assume ok: "create_forward port m w = ((True, msg), m1, w1)"
  from create_forward_success [OF assms ok]
  have new: "port \<notin> set (forwarded_ports cfg)"
    and m1: "m1 = m\<lparr>config := Some (add_port port cfg)\<rparr>"
    and ports: "forwarded_ports (add_port port cfg) = forwarded_ports cfg @ [port]"
    by simp_all
  from m1 have c1: "config m1 = Some (add_port port cfg)" by simp
  have mem: "port \<in> set (forwarded_ports (add_port port cfg))" using ports by simp
  have cnt: "count_list (forwarded_ports (add_port port cfg)) port = 1"
    unfolding ports by (rule count_list_append_new [OF new])
  from c1 create_forward_present [OF c1 mem] cnt
  show "\<exists>cfg1. config m1 = Some cfg1 \<and>
       create_forward port m1 w2 =
         ((False, ''Port '' @ str_int port @ '' already in forwarded list''), m1, w2) \<and>
       count_list (forwarded_ports cfg1) port = 1"
    by blast
next
  assume "port \<notin> set (forwarded_ports cfg)"
  from remove_forward_absent [OF assms this]
  show "remove_forward port m w =
      ((False, ''Port '' @ str_int port @ '' is not in forwarded list''), m, w)" .
qed

text \<open>
  The theorem on a tunnel that forwards port 443: adding 443 again, removing 8080, and
  adding 8080 twice.
\<close>

theorem create_present_remove_absent_witness:
  "create_forward 443 tunnel_manager relay_host =
     ((False, ''Port 443 already in forwarded list''), tunnel_manager, relay_host) \<and>
   count_list [443 :: int] 443 = 1 \<and>
   remove_forward 8080 tunnel_manager relay_host =
     ((False, ''Port 8080 is not in forwarded list''), tunnel_manager, relay_host) \<and>
   fst (create_forward 8080 tunnel_manager relay_host) =
     (True, ''Port forward for 8080 started (socat)'') \<and>
   fst (create_forward 8080 (fst (snd (create_forward 8080 tunnel_manager relay_host)))
          relay_host) = (False, ''Port 8080 already in forwarded list'') \<and>
   map_option forwarded_ports
     (config (fst (snd (create_forward 8080 tunnel_manager relay_host)))) = Some [443, 8080]"
proof -
  define cfg where "cfg = \<lparr>tunnel_name = ''t1'', forwarded_ports = [443 :: int],
                       remote_forward_ip = Some ''10.0.0.9''\<rparr>"
  have c: "config tunnel_manager = Some cfg"
    by (simp add: tunnel_manager_def cfg_def)
  have fp: "forwarded_ports cfg = [443]" by (simp add: cfg_def)
  have p: "443 \<in> set (forwarded_ports cfg)" by (simp add: fp)
  have d: "distinct (forwarded_ports cfg)" by (simp add: fp)
  have q: "8080 \<notin> set (forwarded_ports cfg)" by (simp add: fp)
  have s1: "''Port '' @ str_int 443 @ '' already in forwarded list'' =
      ''Port 443 already in forwarded list''" by code_simp
  have s2: "''Port '' @ str_int 8080 @ '' is not in forwarded list'' =
      ''Port 8080 is not in forwarded list''" by code_simp
  have s3: "''Port '' @ str_int 8080 @ '' already in forwarded list'' =
      ''Port 8080 already in forwarded list''" by code_simp
  note th1 = create_present_remove_absent [OF c, of 443 relay_host, THEN conjunct1, rule_format, OF p]
  from th1 [THEN conjunct1]
  have a1: "create_forward 443 tunnel_manager relay_host =
     ((False, ''Port 443 already in forwarded list''), tunnel_manager, relay_host)"
    unfolding s1 .
  from th1 [THEN conjunct2, rule_format, OF d]
  have a2: "count_list [443 :: int] 443 = 1" unfolding fp .
  from create_present_remove_absent
    [OF c, of 8080 relay_host, THEN conjunct2, THEN conjunct2, rule_format, OF q]
  have a3: "remove_forward 8080 tunnel_manager relay_host =
     ((False, ''Port 8080 is not in forwarded list''), tunnel_manager, relay_host)"
    unfolding s2 .
  have a4: "fst (create_forward 8080 tunnel_manager relay_host) =
     (True, ''Port forward for 8080 started (socat)'')" by code_simp
  define m1 where "m1 = fst (snd (create_forward 8080 tunnel_manager relay_host))"
  define w1 where "w1 = snd (snd (create_forward 8080 tunnel_manager relay_host))"
  have ok: "create_forward 8080 tunnel_manager relay_host =
      ((True, ''Port forward for 8080 started (socat)''), m1, w1)"
    unfolding m1_def w1_def using a4
    by (simp only: prod_eq_iff fst_conv snd_conv simp_thms)
  from create_present_remove_absent
    [OF c, of 8080 relay_host, THEN conjunct2, THEN conjunct1, rule_format, OF ok, of relay_host]
  obtain cfg1 where "config m1 = Some cfg1"
    and again: "create_forward 8080 m1 relay_host =
       ((False, ''Port '' @ str_int 8080 @ '' already in forwarded list''), m1, relay_host)"
    by blast
  from again have a5: "fst (create_forward 8080 m1 relay_host) =
      (False, ''Port 8080 already in forwarded list'')"
    unfolding s3 by (simp only: fst_conv)
  have a6: "map_option forwarded_ports
     (config (fst (snd (create_forward 8080 tunnel_manager relay_host)))) = Some [443, 8080]"
    by code_simp
  from a1 a2 a3 a4 a5 a6 show ?thesis unfolding m1_def by (intro conjI)
qed

lemma stop_forward_not_listening:
  "is_port_listening port w = (False, w1) \<Longrightarrow>
     stop_forward port w = ((True, ''Port '' @ str_int port @ '' is not being forwarded''), w1)"
  by (simp add: stop_forward_def)

text \<open>
  Claim C9. For every port in the forwarded list: when the check finds no process
  listening on the port, \<open>stop_forward\<close> reports success without killing anything,
  \<open>remove_forward\<close> reports success, and the port is taken out of the list (one
  occurrence, which is the only one in a list without duplicates).
\<close>

theorem remove_forward_already_stopped:
  assumes "config m = Some cfg" and "port \<in> set (forwarded_ports cfg)"
    and "is_port_listening port w = (False, w1)"
  shows "stop_forward port w =
           ((True, ''Port '' @ str_int port @ '' is not being forwarded''), w1) \<and>
         remove_forward port m w =
           ((True, ''Port forward '' @ str_int port @ '' removed''),
            m\<lparr>config := Some (remove_port port cfg)\<rparr>, w1) \<and>
         forwarded_ports (remove_port port cfg) = remove1 port (forwarded_ports cfg) \<and>
         (distinct (forwarded_ports cfg) \<longrightarrow>
            port \<notin> set (forwarded_ports (remove_port port cfg)))"
proof (intro conjI impI)
  from stop_forward_not_listening [OF assms(3)]
  show s: "stop_forward port w =
      ((True, ''Port '' @ str_int port @ '' is not being forwarded''), w1)" .
  from assms(1,2) s
  show "remove_forward port m w =
      ((True, ''Port forward '' @ str_int port @ '' removed''),
       m\<lparr>config := Some (remove_port port cfg)\<rparr>, w1)"
    by (simp add: remove_forward_def)
  show "forwarded_ports (remove_port port cfg) = remove1 port (forwarded_ports cfg)"
    by (rule remove_port_ports)
  assume "distinct (forwarded_ports cfg)"
  then show "port \<notin> set (forwarded_ports (remove_port port cfg))"
    by (simp add: remove_port_ports)
qed

text \<open>The theorem on a tunnel that forwards port 443 while nothing listens on the host.\<close>

theorem remove_forward_already_stopped_witness:
  "fst (is_port_listening 443 relay_host) = False \<and>
   fst (stop_forward 443 relay_host) = (True, ''Port 443 is not being forwarded'') \<and>
   fst (remove_forward 443 tunnel_manager relay_host) = (True, ''Port forward 443 removed'') \<and>
   fst (snd (remove_forward 443 tunnel_manager relay_host)) =
     \<lparr>config = Some \<lparr>tunnel_name = ''t1'', forwarded_ports = [],
                       remote_forward_ip = Some ''10.0.0.9''\<rparr>\<rparr> \<and>
   443 \<notin> set (forwarded_ports (remove_port 443
      \<lparr>tunnel_name = ''t1'', forwarded_ports = [443],
         remote_forward_ip = Some ''10.0.0.9''\<rparr>))"
proof -
  define cfg where "cfg = \<lparr>tunnel_name = ''t1'', forwarded_ports = [443 :: int],
                       remote_forward_ip = Some ''10.0.0.9''\<rparr>"
  have c: "config tunnel_manager = Some cfg"
    by (simp add: tunnel_manager_def cfg_def)
  have fp: "forwarded_ports cfg = [443]" by (simp add: cfg_def)
  have p: "443 \<in> set (forwarded_ports cfg)" by (simp add: fp)
  have d: "distinct (forwarded_ports cfg)" by (simp add: fp)
  define w1 where "w1 = snd (is_port_listening 443 relay_host)"
  have l0: "fst (is_port_listening 443 relay_host) = False" by code_simp
  have l: "is_port_listening 443 relay_host = (False, w1)"
    unfolding w1_def using l0 by (simp only: prod_eq_iff fst_conv snd_conv simp_thms)
  have s1: "''Port '' @ str_int 443 @ '' is not being forwarded'' =
      ''Port 443 is not being forwarded''" by code_simp
  have s2: "''Port forward '' @ str_int 443 @ '' removed'' = ''Port forward 443 removed''"
    by code_simp
  have rp: "remove_port 443 cfg = \<lparr>tunnel_name = ''t1'', forwarded_ports = [],
                       remote_forward_ip = Some ''10.0.0.9''\<rparr>"
    by (simp add: remove_port_def cfg_def)
  have tm: "tunnel_manager\<lparr>config := Some (remove_port 443 cfg)\<rparr> =
     \<lparr>config = Some \<lparr>tunnel_name = ''t1'', forwarded_ports = [],
                       remote_forward_ip = Some ''10.0.0.9''\<rparr>\<rparr>"
    unfolding rp by (simp add: tunnel_manager_def)
  note th = remove_forward_already_stopped [OF c p l]
  from th [THEN conjunct1] have a1: "fst (stop_forward 443 relay_host) =
      (True, ''Port 443 is not being forwarded'')"
    unfolding s1 by (simp only: fst_conv)
  from th [THEN conjunct2, THEN conjunct1]
  have r: "remove_forward 443 tunnel_manager relay_host =
           ((True, ''Port forward 443 removed''),
            \<lparr>config = Some \<lparr>tunnel_name = ''t1'', forwarded_ports = [],
                       remote_forward_ip = Some ''10.0.0.9''\<rparr>\<rparr>, w1)"
    unfolding s2 tm .
  from r have a2: "fst (remove_forward 443 tunnel_manager relay_host) =
      (True, ''Port forward 443 removed'')" by (simp only: fst_conv)
  from r have a3: "fst (snd (remove_forward 443 tunnel_manager relay_host)) =
     \<lparr>config = Some \<lparr>tunnel_name = ''t1'', forwarded_ports = [],
                       remote_forward_ip = Some ''10.0.0.9''\<rparr>\<rparr>"
    by (simp only: fst_conv snd_conv)
  from th [THEN conjunct2, THEN conjunct2, THEN conjunct2, rule_format, OF d]
  have a4: "443 \<notin> set (forwarded_ports (remove_port 443
      \<lparr>tunnel_name = ''t1'', forwarded_ports = [443],
         remote_forward_ip = Some ''10.0.0.9''\<rparr>))"
    unfolding cfg_def .
  from l0 a1 a2 a3 a4 show ?thesis by (intro conjI)
qed

section \<open>A port that is already bound\<close>

lemma get_port_process_nonempty:
  "get_port_process port w = (Some owner, w') \<Longrightarrow> owner \<noteq> []"
  by (auto simp: get_port_process_def Let_def split: prod.splits if_splits)

lemma proc_or_unknown_of_process:
  "get_port_process port w = (proc, w') \<Longrightarrow>
     proc_or_unknown proc = (case proc of None \<Rightarrow> ''unknown process'' | Some owner \<Rightarrow> owner)"
  by (cases proc) (auto simp: proc_or_unknown_def dest: get_port_process_nonempty)

lemma start_forward_not_installed:
  "check_socat_installed w = (False, w1) \<Longrightarrow>
     start_forward port remote_ip remote_port w =
       ((False, ''socat is not installed. Install with: apt-get install socat''), w1)"
  by (simp add: start_forward_def)

lemma start_forward_in_use:
  "check_socat_installed w = (True, w1) \<Longrightarrow> is_port_listening port w1 = (True, w2) \<Longrightarrow>
   get_port_process port w2 = (proc, w3) \<Longrightarrow>
     start_forward port remote_ip remote_port w =
       ((False, ''Port '' @ str_int port @ '' is already in use by: '' @
           (case proc of None \<Rightarrow> ''unknown process'' | Some owner \<Rightarrow> owner)), w3)"
  by (simp add: start_forward_def proc_or_unknown_of_process)

text \<open>
  Claim C5 says that \<open>create_forward\<close> on a port outside the forwarded set answers with the
  port conflict whenever some process listens on the port. Two guards of the source come
  before the listening check. On \<open>busy_host\<close> the process \<open>nginx\<close> listens on port 8080,
  yet a tunnel without a remote forward address gets the answer of the first guard, and
  a host without \<open>socat\<close> the answer of \<open>start_forward\<close>'s installation check; neither
  answer names the process.
\<close>

theorem create_forward_port_in_use_counterexample:
  "fst (is_port_listening 8080 busy_host) = True \<and>
   fst (get_port_process 8080 busy_host) = Some ''nginx (PID: 4242)'' \<and>
   map_option forwarded_ports (config no_remote_manager) = Some [] \<and>
   fst (create_forward 8080 no_remote_manager busy_host) =
     (False, ''Remote forward IP not configured for this tunnel'') \<and>
   fst (is_port_listening 8080 no_socat_host) = True \<and>
   map_option forwarded_ports (config tunnel_manager) = Some [443] \<and>
   fst (create_forward 8080 tunnel_manager no_socat_host) =
     (False, ''socat is not installed. Install with: apt-get install socat'')"
  by code_simp

text \<open>
  Claim C5, amended. For every port that is not in the forwarded list of the tunnel:
  when the tunnel has a remote forward address, \<open>socat\<close> is installed and the listening
  check finds the port bound, \<open>create_forward\<close> fails with the conflict outcome, which
  names the owning process as \<open>get_port_process\<close> determined it and says
  \<open>unknown process\<close> otherwise. A tunnel without a remote forward address gets the
  outcome of that guard, and a host without \<open>socat\<close> the outcome of the installation
  check. In all three cases the manager, and with it the forwarded list, is returned
  unchanged.
\<close>

theorem create_forward_port_in_use:
  assumes "config m = Some cfg" and "port \<notin> set (forwarded_ports cfg)"
  shows "((remote_forward_ip cfg = None \<or> remote_forward_ip cfg = Some []) \<longrightarrow>
            create_forward port m w =
              ((False, ''Remote forward IP not configured for this tunnel''), m, w)) \<and>
         (remote_forward_ip cfg = Some remote_ip \<and> remote_ip \<noteq> [] \<and>
          check_socat_installed w = (False, w1) \<longrightarrow>
            create_forward port m w =
              ((False, ''socat is not installed. Install with: apt-get install socat''), m, w1)) \<and>
         (remote_forward_ip cfg = Some remote_ip \<and> remote_ip \<noteq> [] \<and>
          check_socat_installed w = (True, w1) \<and> is_port_listening port w1 = (True, w2) \<and>
          get_port_process port w2 = (proc, w3) \<longrightarrow>
            create_forward port m w =
              ((False, ''Port '' @ str_int port @ '' is already in use by: '' @
                  (case proc of None \<Rightarrow> ''unknown process'' | Some owner \<Rightarrow> owner)), m, w3))"
proof (intro conjI impI)
  assume "remote_forward_ip cfg = None \<or> remote_forward_ip cfg = Some []"
  with assms show "create_forward port m w =
      ((False, ''Remote forward IP not configured for this tunnel''), m, w)"
    by (auto simp: create_forward_def)
next
  assume a: "remote_forward_ip cfg = Some remote_ip \<and> remote_ip \<noteq> [] \<and>
          check_socat_installed w = (False, w1)"
  then have "start_forward port remote_ip port w =
       ((False, ''socat is not installed. Install with: apt-get install socat''), w1)"
    by (simp add: start_forward_not_installed)
  with assms a show "create_forward port m w =
      ((False, ''socat is not installed. Install with: apt-get install socat''), m, w1)"
    by (simp add: create_forward_def)
next
  assume a: "remote_forward_ip cfg = Some remote_ip \<and> remote_ip \<noteq> [] \<and>
          check_socat_installed w = (True, w1) \<and> is_port_listening port w1 = (True, w2) \<and>
          get_port_process port w2 = (proc, w3)"
  then have "start_forward port remote_ip port w =
       ((False, ''Port '' @ str_int port @ '' is already in use by: '' @
           (case proc of None \<Rightarrow> ''unknown process'' | Some owner \<Rightarrow> owner)), w3)"
    by (simp add: start_forward_in_use)
  with assms a show "create_forward port m w =
      ((False, ''Port '' @ str_int port @ '' is already in use by: '' @
          (case proc of None \<Rightarrow> ''unknown process'' | Some owner \<Rightarrow> owner)), m, w3)"
    by (simp add: create_forward_def)
qed

text \<open>The amended claim on \<open>busy_host\<close> and \<open>no_socat_host\<close>, for port 8080.\<close>

theorem create_forward_port_in_use_witness:
  "fst (check_socat_installed busy_host) = True \<and>
   fst (is_port_listening 8080 (snd (check_socat_installed busy_host))) = True \<and>
   fst (create_forward 8080 tunnel_manager busy_host) =
     (False, ''Port 8080 is already in use by: nginx (PID: 4242)'') \<and>
   fst (snd (create_forward 8080 tunnel_manager busy_host)) = tunnel_manager \<and>
   create_forward 8080 no_remote_manager busy_host =
     ((False, ''Remote forward IP not configured for this tunnel''), no_remote_manager, busy_host) \<and>
   fst (create_forward 8080 tunnel_manager no_socat_host) =
     (False, ''socat is not installed. Install with: apt-get install socat'') \<and>
   fst (snd (create_forward 8080 tunnel_manager no_socat_host)) = tunnel_manager"
proof -
  define cfg where "cfg = \<lparr>tunnel_name = ''t1'', forwarded_ports = [443 :: int],
                       remote_forward_ip = Some ''10.0.0.9''\<rparr>"
  have c: "config tunnel_manager = Some cfg"
    by (simp add: tunnel_manager_def cfg_def)
  have q: "8080 \<notin> set (forwarded_ports cfg)" by (simp add: cfg_def)
  have rip: "remote_forward_ip cfg = Some ''10.0.0.9''" by (simp add: cfg_def)
  have ne: "''10.0.0.9'' \<noteq> []" by simp
  define w1 where "w1 = snd (check_socat_installed busy_host)"
  define w2 where "w2 = snd (is_port_listening 8080 w1)"
  define proc where "proc = fst (get_port_process 8080 w2)"
  define w3 where "w3 = snd (get_port_process 8080 w2)"
  have i0: "fst (check_socat_installed busy_host) = True" by code_simp
  have i: "check_socat_installed busy_host = (True, w1)"
    unfolding w1_def using i0 by (simp only: prod_eq_iff fst_conv snd_conv simp_thms)
  have l0: "fst (is_port_listening 8080 (snd (check_socat_installed busy_host))) = True"
    by code_simp
  have l: "is_port_listening 8080 w1 = (True, w2)"
    unfolding w2_def w1_def using l0 by (simp only: prod_eq_iff fst_conv snd_conv simp_thms)
  have g: "get_port_process 8080 w2 = (proc, w3)"
    unfolding proc_def w3_def by (simp only: prod.collapse)
  have p0: "fst (get_port_process 8080
      (snd (is_port_listening 8080 (snd (check_socat_installed busy_host))))) =
        Some ''nginx (PID: 4242)''"
    by code_simp
  have pr: "proc = Some ''nginx (PID: 4242)''"
    unfolding proc_def w2_def w1_def by (rule p0)
  have s: "''Port '' @ str_int 8080 @ '' is already in use by: '' @
      (case Some ''nginx (PID: 4242)'' of None \<Rightarrow> ''unknown process'' | Some owner \<Rightarrow> owner) =
      ''Port 8080 is already in use by: nginx (PID: 4242)''"
    by code_simp
  have hyp: "remote_forward_ip cfg = Some ''10.0.0.9'' \<and> ''10.0.0.9'' \<noteq> [] \<and>
          check_socat_installed busy_host = (True, w1) \<and>
          is_port_listening 8080 w1 = (True, w2) \<and> get_port_process 8080 w2 = (proc, w3)"
    using rip ne i l g by (intro conjI)
  from create_forward_port_in_use
    [where w = busy_host and remote_ip = "''10.0.0.9''" and ?w1.0 = w1 and ?w2.0 = w2
       and proc = proc and ?w3.0 = w3,
     OF c q, THEN conjunct2, THEN conjunct2, rule_format, OF hyp]
  have r: "create_forward 8080 tunnel_manager busy_host =
      ((False, ''Port 8080 is already in use by: nginx (PID: 4242)''), tunnel_manager, w3)"
    unfolding pr s .
  from r have a1: "fst (create_forward 8080 tunnel_manager busy_host) =
     (False, ''Port 8080 is already in use by: nginx (PID: 4242)'')"
    by (simp only: fst_conv)
  from r have a2: "fst (snd (create_forward 8080 tunnel_manager busy_host)) = tunnel_manager"
    by (simp only: fst_conv snd_conv)
  define cfg2 where "cfg2 = \<lparr>tunnel_name = ''t2'', forwarded_ports = [] :: int list,
                       remote_forward_ip = None\<rparr>"
  have c2: "config no_remote_manager = Some cfg2"
    by (simp add: no_remote_manager_def cfg2_def)
  have q2: "8080 \<notin> set (forwarded_ports cfg2)" by (simp add: cfg2_def)
  have n2: "remote_forward_ip cfg2 = None \<or> remote_forward_ip cfg2 = Some []"
    by (simp add: cfg2_def)
  from create_forward_port_in_use
    [where w = busy_host, OF c2 q2, THEN conjunct1, rule_format, OF n2]
  have a3: "create_forward 8080 no_remote_manager busy_host =
     ((False, ''Remote forward IP not configured for this tunnel''), no_remote_manager, busy_host)" .
  define v1 where "v1 = snd (check_socat_installed no_socat_host)"
  have j0: "fst (check_socat_installed no_socat_host) = False" by code_simp
  have j: "check_socat_installed no_socat_host = (False, v1)"
    unfolding v1_def using j0 by (simp only: prod_eq_iff fst_conv snd_conv simp_thms)
  have hyp2: "remote_forward_ip cfg = Some ''10.0.0.9'' \<and> ''10.0.0.9'' \<noteq> [] \<and>
          check_socat_installed no_socat_host = (False, v1)"
    using rip ne j by (intro conjI)
  from create_forward_port_in_use
    [where w = no_socat_host and remote_ip = "''10.0.0.9''" and ?w1.0 = v1,
     OF c q, THEN conjunct2, THEN conjunct1, rule_format, OF hyp2]
  have r2: "create_forward 8080 tunnel_manager no_socat_host =
      ((False, ''socat is not installed. Install with: apt-get install socat''),
       tunnel_manager, v1)" .
  from r2 have a4: "fst (create_forward 8080 tunnel_manager no_socat_host) =
     (False, ''socat is not installed. Install with: apt-get install socat'')"
    by (simp only: fst_conv)
  from r2 have a5: "fst (snd (create_forward 8080 tunnel_manager no_socat_host)) = tunnel_manager"
    by (simp only: fst_conv snd_conv)
  from i0 l0 a1 a2 a3 a4 a5 show ?thesis by (intro conjI)
qed

section \<open>The bulk helpers\<close>






text \<open>Without a configuration the loop of \<open>remove_multiple_forwards\<close> raises at the first port.\<close>

lemma remove_multiple_forwards_without_config:
  "config m = None \<Longrightarrow> parse_ports ports_str = Some (port # rest) \<Longrightarrow>
     remove_multiple_forwards ports_str m w = (Inl (PyException ''AttributeError''), m, w)"
  by (simp add: remove_multiple_forwards_def)

section \<open>Applying an address\<close>



















section \<open>Switching the forward mode\<close>

text \<open>Choosing the mode that is already current does nothing, in both menus.\<close>

lemma switch_to_current_mode_is_noop:
  "new_mode_of_choice mode_choice = Some (get_forward_mode w) \<Longrightarrow>
     handle_forwards_menu_choice6 mode_choice start_now w = (None, w) \<and>
     handle_easytier_forwards_menu_choice6 mode_choice w = (None, w)"
  by (simp add: handle_forwards_menu_choice6_def handle_easytier_forwards_menu_choice6_def)

lemma run_command_trace:
  "trace (snd (run_command cmd w)) = trace w @ [Run (ShellCmd cmd) (Some 10)]"
  by (simp add: run_command_def subprocess_run_def split: sum.split exn.split)

lemma stop_all_socat_trace:
  "trace (snd (stop_all_socat w)) =
     trace w @ [Run (ShellCmd (''pkill -f 'socat.*TCP-LISTEN'' @ [CHR 0x27])) (Some 10),
                Sleep (1 / 2),
                Run (ShellCmd (''pgrep -f 'socat.*TCP-LISTEN'' @ [CHR 0x27])) (Some 10)]"
proof -
  obtain r w1 where 1: "run_command (''pkill -f 'socat.*TCP-LISTEN'' @ [CHR 0x27]) w = (r, w1)"
    by (cases "run_command (''pkill -f 'socat.*TCP-LISTEN'' @ [CHR 0x27]) w")
  from run_command_trace [of "''pkill -f 'socat.*TCP-LISTEN'' @ [CHR 0x27]" w] 1
  have t1: "trace w1 = trace w @ [Run (ShellCmd (''pkill -f 'socat.*TCP-LISTEN'' @ [CHR 0x27])) (Some 10)]"
    by simp
  obtain r2 w2 where 2: "run_command (''pgrep -f 'socat.*TCP-LISTEN'' @ [CHR 0x27])
      (time_sleep (1 / 2) w1) = (r2, w2)"
    by (cases "run_command (''pgrep -f 'socat.*TCP-LISTEN'' @ [CHR 0x27]) (time_sleep (1 / 2) w1)")
  from run_command_trace [of "''pgrep -f 'socat.*TCP-LISTEN'' @ [CHR 0x27]" "time_sleep (1 / 2) w1"] 2
  have t2: "trace w2 = trace w1 @ [Sleep (1 / 2),
      Run (ShellCmd (''pgrep -f 'socat.*TCP-LISTEN'' @ [CHR 0x27])) (Some 10)]"
    by (simp add: time_sleep_def)
  from 1 2 t1 t2 show ?thesis
    by (simp add: stop_all_socat_def stop_all_forwards_def split: prod.splits)
qed

text \<open>
  The menu of the L2TP tunnels stops the relays before it stores the new mode: the trace
  goes on with the three events of \<open>stop_all_socat\<close>, then with \<open>SetForwardMode\<close>.
\<close>

lemma forwards_menu_stops_relays_first:
  assumes "get_forward_mode w = ''socat''" and "new_mode_of_choice mode_choice = Some new_mode"
    and "new_mode \<noteq> ''socat''"
  shows "\<exists>evs. trace (snd (handle_forwards_menu_choice6 mode_choice start_now w)) =
     trace w @ [Run (ShellCmd (''pkill -f 'socat.*TCP-LISTEN'' @ [CHR 0x27])) (Some 10),
                Sleep (1 / 2),
                Run (ShellCmd (''pgrep -f 'socat.*TCP-LISTEN'' @ [CHR 0x27])) (Some 10),
                SetForwardMode new_mode] @ evs"
proof -
  obtain r w1 where s: "stop_all_socat w = (r, w1)" by (cases "stop_all_socat w")
  from stop_all_socat_trace [of w] s
  have t1: "trace w1 =
     trace w @ [Run (ShellCmd (''pkill -f 'socat.*TCP-LISTEN'' @ [CHR 0x27])) (Some 10),
                Sleep (1 / 2),
                Run (ShellCmd (''pgrep -f 'socat.*TCP-LISTEN'' @ [CHR 0x27])) (Some 10)]"
    by simp
  have sh: "\<exists>evs. trace (snd (shell cmd v)) = trace v @ evs" for cmd v
    by (simp add: shell_def subprocess_run_def split: sum.split)
  have rs: "\<exists>evs. trace (snd (restart_forward_daemon v)) = trace v @ evs" for v
    by (auto simp: restart_forward_daemon_def shell_def subprocess_run_def Let_def
          split: sum.split prod.split option.split)
  define w2 where "w2 = set_forward_mode new_mode w1"
  have t2: "trace w2 = trace w1 @ [SetForwardMode new_mode]"
    by (simp add: w2_def set_forward_mode_def)
  have res: "handle_forwards_menu_choice6 mode_choice start_now w =
      (if new_mode \<noteq> ''none'' then (if start_now then restart_forward_daemon w2 else (None, w2))
       else shell ''systemctl stop haproxy'' w2)"
    using assms s by (simp add: handle_forwards_menu_choice6_def w2_def Let_def)
  from sh [of "''systemctl stop haproxy''" w2] rs [of w2]
  have "\<exists>evs. trace (snd (handle_forwards_menu_choice6 mode_choice start_now w)) = trace w2 @ evs"
    unfolding res by auto
  then show ?thesis using t1 t2 by auto
qed

text \<open>
  Claim C4 asks that a switch to a different mode stops the driver of the current mode
  before the new mode is stored. The menu of the EasyTier tunnels does not: with the
  relay mode current (\<open>relay_host\<close>), choosing \<open>none\<close> stores the mode and issues no
  command at all, and choosing \<open>haproxy\<close> stores the mode and starts the proxy; in
  neither trace is there a \<open>pkill\<close> of the relays. The menu of the L2TP tunnels, on the
  same host and choice, stops the relays first.
\<close>

theorem easytier_switch_stops_nothing:
  "get_forward_mode relay_host = ''socat'' \<and>
   handle_easytier_forwards_menu_choice6 ''1'' relay_host =
     (None, relay_host\<lparr>trace := [SetForwardMode ''none''], forward_mode := ''none''\<rparr>) \<and>
   trace (snd (handle_easytier_forwards_menu_choice6 ''2'' relay_host)) =
     [SetForwardMode ''haproxy'',
      Run (ShellCmd ''systemctl start haproxy'') None,
      Run (ShellCmd ''systemctl restart vortexl2-forward-daemon'') None] \<and>
   trace (snd (handle_forwards_menu_choice6 ''1'' True relay_host)) =
     [Run (ShellCmd (''pkill -f 'socat.*TCP-LISTEN'' @ [CHR 0x27])) (Some 10),
      Sleep (1 / 2),
      Run (ShellCmd (''pgrep -f 'socat.*TCP-LISTEN'' @ [CHR 0x27])) (Some 10),
      SetForwardMode ''none'',
      Run (ShellCmd ''systemctl stop haproxy'') None]"
proof -
  have a: "get_forward_mode relay_host = ''socat''"
    by (simp add: get_forward_mode_def relay_host_def)
  have b: "handle_easytier_forwards_menu_choice6 ''1'' relay_host =
     (None, relay_host\<lparr>trace := [SetForwardMode ''none''], forward_mode := ''none''\<rparr>)"
    by (simp add: handle_easytier_forwards_menu_choice6_def get_forward_mode_def
          new_mode_of_choice_def set_forward_mode_def emit_def relay_host_def)
  have c: "trace (snd (handle_easytier_forwards_menu_choice6 ''2'' relay_host)) =
     [SetForwardMode ''haproxy'',
      Run (ShellCmd ''systemctl start haproxy'') None,
      Run (ShellCmd ''systemctl restart vortexl2-forward-daemon'') None]"
    by code_simp
  have d: "trace (snd (handle_forwards_menu_choice6 ''1'' True relay_host)) =
     [Run (ShellCmd (''pkill -f 'socat.*TCP-LISTEN'' @ [CHR 0x27])) (Some 10),
      Sleep (1 / 2),
      Run (ShellCmd (''pgrep -f 'socat.*TCP-LISTEN'' @ [CHR 0x27])) (Some 10),
      SetForwardMode ''none'',
      Run (ShellCmd ''systemctl stop haproxy'') None]"
    by code_simp
  from a b c d show ?thesis by (intro conjI)
qed

end
